theory Spec2Isabelle
  imports Complex_Main "HOL-Library.Multiset" "HOL-Library.Sublist"
begin

section \<open>JavaScript primitives used by the CryptoRadar modules\<close>

text \<open>
  Numbers. A JavaScript number is an IEEE double; here a finite number is idealised as a
  \<open>real\<close> (rounding error, overflow and the infinities are outside the model). Integer
  valued results of \<open>Math.round\<close> and \<open>Math.floor\<close> are \<open>int\<close>s.
  \<open>Math.round\<close> rounds to the nearest integer, a half towards plus infinity.
\<close>

definition Math_round :: "real \<Rightarrow> int" where
  "Math_round x = \<lfloor>x + 1 / 2\<rfloor>"

definition Math_floor :: "real \<Rightarrow> int" where
  "Math_floor x = \<lfloor>x\<rfloor>"

text \<open>
  \<open>Math.random()\<close>: the successive draws are an input of the model, a sequence of reals
  read through a cursor. The contract of \<open>Math.random\<close> is that every draw lies in
  \<open>[0, 1)\<close>; \<open>unit_draws\<close> states it.
\<close>

type_synonym rng = "nat \<Rightarrow> real"

definition unit_draws :: "rng \<Rightarrow> bool" where
  "unit_draws g = (\<forall>i. 0 \<le> g i \<and> g i < 1)"

text \<open>
  What a JSON payload can hold in a numeric field: the field is absent (\<open>undefined\<close>),
  \<open>null\<close>, or a number. (Strings, booleans and nested values are outside the model.)
  \<open>v || d\<close> yields \<open>d\<close> when \<open>v\<close> is falsy: \<open>undefined\<close>, \<open>null\<close> and \<open>0\<close> are.
\<close>

datatype jsval = JUndefined | JNull | JNum real

fun or_default :: "jsval \<Rightarrow> real \<Rightarrow> real" where
  "or_default JUndefined d = d"
| "or_default JNull d = d"
| "or_default (JNum x) d = (if x = 0 then d else x)"

text \<open>
  The result of \<open>parseFloat\<close> and the argument of \<open>isNaN\<close>: a number or \<open>NaN\<close>.
\<close>

datatype jsnum = NaN | Num real

fun isNaN :: "jsnum \<Rightarrow> bool" where
  "isNaN NaN = True"
| "isNaN (Num x) = False"

text \<open>\<open>a <= b\<close> on numbers is false as soon as one side is \<open>NaN\<close>.\<close>

fun js_le :: "jsnum \<Rightarrow> jsnum \<Rightarrow> bool" where
  "js_le (Num a) (Num b) = (a \<le> b)"
| "js_le _ _ = False"

text \<open>
  \<open>x.toFixed(2)\<close> is a decimal string with two fraction digits: a minus sign when
  \<open>x < 0\<close>, then the digits of the integer nearest to \<open>|x| * 100\<close> (the larger one at a
  tie). The string is kept as its sign and its digits read as a number of hundredths.
\<close>

record fixed2 =
  negative :: bool
  hundredths :: nat

definition toFixed2 :: "real \<Rightarrow> fixed2" where
  "toFixed2 x = \<lparr>negative = (x < 0), hundredths = nat \<lfloor>\<bar>x\<bar> * 100 + 1 / 2\<rfloor>\<rparr>"

text \<open>
  \<open>Array.prototype.sort(cmp)\<close> is a stable sort: \<open>a\<close> comes before \<open>b\<close> when
  \<open>cmp(a, b) < 0\<close>, and elements that compare equal keep their order. It is an insertion
  sort here; \<open>slice(0, n)\<close> keeps the first \<open>n\<close> elements.
\<close>

fun js_insert :: "('a \<Rightarrow> 'a \<Rightarrow> 'b::{zero,ord}) \<Rightarrow> 'a \<Rightarrow> 'a list \<Rightarrow> 'a list" where
  "js_insert cmp x [] = [x]"
| "js_insert cmp x (y # ys) = (if cmp x y \<le> 0 then x # y # ys else y # js_insert cmp x ys)"

definition js_sort :: "('a \<Rightarrow> 'a \<Rightarrow> 'b::{zero,ord}) \<Rightarrow> 'a list \<Rightarrow> 'a list" where
  "js_sort cmp xs = foldr (js_insert cmp) xs []"

definition slice0 :: "nat \<Rightarrow> 'a list \<Rightarrow> 'a list" where
  "slice0 n xs = take n xs"

text \<open>
  The outcome of \<open>await axios.get(url)\<close>: the promise is rejected (network error, status
  outside 2xx), or it resolves with a response whose \<open>data\<close> is either unusable (\<open>None\<close>:
  reading a property of it, or calling \<open>map\<close> on it, throws a \<open>TypeError\<close>) or a payload.
\<close>

datatype 'd response = Rejected | Resolved "'d option"

section \<open>Support and resistance module\<close>

record level =
  price :: real
  reliability :: int
  distance :: fixed2
  timesTested :: int
  isTrap :: bool
  trapReason :: "string option"

record levels =
  supports :: "level list"
  resistances :: "level list"

record payload =
  currentPrice :: jsval

record sr_state =
  sr_levels :: levels
  sr_isLive :: bool
  sr_selectedTimeframe :: string
  sr_lastUpdated :: "nat option"
  sr_currentPrice :: "real option"

definition sr_initial :: sr_state where
  "sr_initial = \<lparr>sr_levels = \<lparr>supports = [], resistances = []\<rparr>, sr_isLive = True,
     sr_selectedTimeframe = ''4H'', sr_lastUpdated = None, sr_currentPrice = None\<rparr>"

text \<open>\<open>calculateReliability\<close>: one draw; the result and the cursor after it.\<close>

definition calculateReliability :: "real \<Rightarrow> real \<Rightarrow> string \<Rightarrow> rng \<Rightarrow> nat \<Rightarrow> int \<times> nat" where
  "calculateReliability levelPrice currentPrice' type g n =
     (let isRoundNumber = (Math_round (levelPrice / 1000) * 1000 = Math_round levelPrice);
          isPsychologicalLevel =
            (isRoundNumber \<or> Math_round (levelPrice / 500) * 500 = Math_round levelPrice);
          baseReliability = g n * 50 + 30;
          boosted = (if isPsychologicalLevel then min (baseReliability * (5 / 4)) 100
                     else baseReliability)
      in (Math_round boosted, Suc n))"

definition reasons :: "string \<Rightarrow> string list" where
  "reasons type =
     (if type = ''support'' then
        [''Volume in calo durante i test'',
         ''Livello testato troppe volte in poco tempo'',
         ''Presenza di un gap di prezzo appena sotto'',
         ''Pattern di divergenza con RSI'']
      else if type = ''resistance'' then
        [''Basso volume durante i rimbalzi'',
         ''Formazione di pinbar al test'',
         ''Livello non testato da lungo tempo'',
         ''Divergenza nascosta con oscillatori'']
      else [])"

text \<open>
  \<open>generateTrapReason\<close>: one draw indexes the list of the type (it is only called with
  \<open>'support'\<close> and \<open>'resistance'\<close>); an index outside the list reads \<open>undefined\<close>.
\<close>

definition generateTrapReason :: "string \<Rightarrow> rng \<Rightarrow> nat \<Rightarrow> string option \<times> nat" where
  "generateTrapReason type g n =
     (let rs = reasons type; i = Math_floor (g n * real (length rs))
      in (if 0 \<le> i \<and> nat i < length rs then Some (rs ! nat i) else None, Suc n))"

text \<open>
  One iteration of the first loop of \<open>processLevelsData\<close> (a support, below the current
  price) and of the second (a resistance, above it). The draws are taken in the order of
  the source: deviation, reliability, trap, times tested, and the trap reason if a trap.
\<close>

definition supportLevel :: "real \<Rightarrow> rng \<Rightarrow> nat \<Rightarrow> level \<times> nat" where
  "supportLevel currentPrice' g n =
     (let deviation = (g n * (12 / 100) + 2 / 100) * currentPrice';
          price' = currentPrice' - deviation;
          (reliability', n1) = calculateReliability price' currentPrice' ''support'' g (Suc n);
          distance' = ((currentPrice' - price') / currentPrice') * 100;
          isTrap' = (g n1 > 7 / 10);
          timesTested' = Math_floor (g (Suc n1) * 5) + 1;
          (trapReason', n2) =
            (if isTrap' then generateTrapReason ''support'' g (Suc (Suc n1))
             else (None, Suc (Suc n1)))
      in (\<lparr>price = price', reliability = reliability', distance = toFixed2 distance',
           timesTested = timesTested', isTrap = isTrap', trapReason = trapReason'\<rparr>, n2))"

definition resistanceLevel :: "real \<Rightarrow> rng \<Rightarrow> nat \<Rightarrow> level \<times> nat" where
  "resistanceLevel currentPrice' g n =
     (let deviation = (g n * (12 / 100) + 2 / 100) * currentPrice';
          price' = currentPrice' + deviation;
          (reliability', n1) = calculateReliability price' currentPrice' ''resistance'' g (Suc n);
          distance' = ((price' - currentPrice') / currentPrice') * 100;
          isTrap' = (g n1 > 7 / 10);
          timesTested' = Math_floor (g (Suc n1) * 5) + 1;
          (trapReason', n2) =
            (if isTrap' then generateTrapReason ''resistance'' g (Suc (Suc n1))
             else (None, Suc (Suc n1)))
      in (\<lparr>price = price', reliability = reliability', distance = toFixed2 distance',
           timesTested = timesTested', isTrap = isTrap', trapReason = trapReason'\<rparr>, n2))"

text \<open>The \<open>for\<close> loops: \<open>k\<close> iterations, each pushing one level.\<close>

fun levelsLoop :: "(real \<Rightarrow> rng \<Rightarrow> nat \<Rightarrow> level \<times> nat) \<Rightarrow> nat \<Rightarrow> real \<Rightarrow> rng \<Rightarrow> nat \<Rightarrow> level list \<times> nat" where
  "levelsLoop body 0 cp g n = ([], n)"
| "levelsLoop body (Suc k) cp g n =
     (let (l, n1) = body cp g n; (ls, n2) = levelsLoop body k cp g n1 in (l # ls, n2))"

text \<open>
  The candidates of \<open>processLevelsData\<close>, before the ranking: four supports, then four
  resistances.
\<close>

definition candidateLevels :: "payload \<Rightarrow> rng \<Rightarrow> level list \<times> level list" where
  "candidateLevels data g =
     (let currentPrice' = or_default (currentPrice data) 65000;
          (supports', n1) = levelsLoop supportLevel 4 currentPrice' g 0;
          (resistances', n2) = levelsLoop resistanceLevel 4 currentPrice' g n1
      in (supports', resistances'))"

text \<open>\<open>xs.sort((a, b) => b.reliability - a.reliability).slice(0, 2)\<close>\<close>

definition sortedTop2 :: "level list \<Rightarrow> level list" where
  "sortedTop2 xs = slice0 2 (js_sort (\<lambda>a b. reliability b - reliability a) xs)"

definition processLevelsData :: "payload \<Rightarrow> rng \<Rightarrow> levels" where
  "processLevelsData data g =
     (let (supports', resistances') = candidateLevels data g;
          sortedSupports = sortedTop2 supports';
          sortedResistances = sortedTop2 resistances'
      in \<lparr>supports = sortedSupports, resistances = sortedResistances\<rparr>)"

text \<open>
  \<open>fetchSupportResistanceLevels\<close>, from the point where the request settles. \<open>now\<close> is the
  clock read by \<open>new Date()\<close>. A rejected request, and an exception thrown by
  \<open>processLevelsData\<close> on unusable data, both end in the \<open>catch\<close> block.
\<close>

fun fetchSupportResistanceLevels :: "payload response \<Rightarrow> nat \<Rightarrow> rng \<Rightarrow> sr_state \<Rightarrow> sr_state" where
  "fetchSupportResistanceLevels Rejected now g s = s\<lparr>sr_isLive := False\<rparr>"
| "fetchSupportResistanceLevels (Resolved None) now g s = s\<lparr>sr_isLive := False\<rparr>"
| "fetchSupportResistanceLevels (Resolved (Some data)) now g s =
     s\<lparr>sr_levels := processLevelsData data g,
       sr_currentPrice := Some (or_default (currentPrice data) 65000),
       sr_lastUpdated := Some now,
       sr_isLive := True\<rparr>"

section \<open>The polling effect shared by the modules\<close>

text \<open>
  Every module installs the same effect:
  \<^verbatim>\<open>useEffect(() => { fetchX(); const interval = setInterval(fetchX, T);
                     return () => clearInterval(interval); }, deps)\<close>
  What can happen to it is an event: the effect body runs, the interval fires, a request
  that is in flight settles with some arrival \<open>a\<close>, or the cleanup runs. Requests are
  numbered in the order they are started. \<open>fetchX\<close> starts a request and suspends at
  \<open>await\<close>; its continuation \<open>h\<close> runs when the request settles.
\<close>

datatype 'a event = EffectRun | TimerFire | Settle nat 'a | Cleanup

record 's poller =
  component :: 's
  timer :: bool
  issued :: nat
  inflight :: "nat list"

definition startFetch :: "'s poller \<Rightarrow> 's poller" where
  "startFetch p = p\<lparr>issued := Suc (issued p), inflight := inflight p @ [issued p]\<rparr>"

fun poll_step :: "('a \<Rightarrow> 's \<Rightarrow> 's) \<Rightarrow> 'a event \<Rightarrow> 's poller \<Rightarrow> 's poller" where
  "poll_step h EffectRun p = (startFetch p)\<lparr>timer := True\<rparr>"
| "poll_step h TimerFire p = (if timer p then startFetch p else p)"
| "poll_step h (Settle i a) p =
     (if i \<in> set (inflight p)
      then p\<lparr>component := h a (component p), inflight := remove1 i (inflight p)\<rparr>
      else p)"
| "poll_step h Cleanup p = p\<lparr>timer := False\<rparr>"

fun poll_run :: "('a \<Rightarrow> 's \<Rightarrow> 's) \<Rightarrow> 'a event list \<Rightarrow> 's poller \<Rightarrow> 's poller" where
  "poll_run h [] p = p"
| "poll_run h (e # es) p = poll_run h es (poll_step h e p)"

definition unmounted :: "'s \<Rightarrow> 's poller" where
  "unmounted s = \<lparr>component = s, timer = False, issued = 0, inflight = []\<rparr>"

text \<open>The support and resistance module under its effect.\<close>

type_synonym sr_arrival = "payload response \<times> nat \<times> rng"

definition sr_handler :: "sr_arrival \<Rightarrow> sr_state \<Rightarrow> sr_state" where
  "sr_handler a s = (case a of (r, now, g) \<Rightarrow> fetchSupportResistanceLevels r now g s)"

text \<open>The states after each fetch of a sequence of settled fetches.\<close>

fun sr_fetches :: "sr_arrival list \<Rightarrow> sr_state \<Rightarrow> sr_state list" where
  "sr_fetches [] s = []"
| "sr_fetches (a # as) s = sr_handler a s # sr_fetches as (sr_handler a s)"

section \<open>Price alert module\<close>

text \<open>
  The sound of an alert is one of the four options of the form's select, which are the
  keys of \<open>audioElements\<close>; the condition of an alert is the value of the other select, a
  string.
\<close>

datatype sound = alarm1 | alarm2 | alarm3 | alarm4

record alert =
  a_id :: nat
  a_price :: real
  a_type :: string
  a_sound :: sound
  a_created :: nat
  triggered :: bool
  triggeredAt :: "nat option"

record price_data =
  data_price :: jsval

record pa_state =
  alerts :: "alert list"
  pa_isLive :: bool
  pa_currentPrice :: "real option"
  pa_lastUpdated :: "nat option"
  alertPrice :: string
  alertType :: string
  alertSound :: sound
  played :: "sound list"

definition pa_initial :: pa_state where
  "pa_initial = \<lparr>alerts = [], pa_isLive = True, pa_currentPrice = None, pa_lastUpdated = None,
     alertPrice = [], alertType = ''above'', alertSound = alarm1, played = []\<rparr>"

text \<open>
  The callback that \<open>checkAlerts\<close> maps over the alerts. \<open>audioElements snd\<close> tells
  whether the ref of the audio element of \<open>snd\<close> is set; the second component of the
  result is the sound on which \<open>play()\<close> was called, if any.
\<close>

definition checkAlert :: "(sound \<Rightarrow> bool) \<Rightarrow> nat \<Rightarrow> real \<Rightarrow> alert \<Rightarrow> alert \<times> sound option" where
  "checkAlert audioElements now price' alert' =
     (if \<not> triggered alert' then
        (let shouldTrigger =
               (if a_type alert' = ''above'' \<and> price' \<ge> a_price alert' then True
                else if a_type alert' = ''below'' \<and> price' \<le> a_price alert' then True
                else False)
         in if shouldTrigger
            then (alert'\<lparr>triggered := True, triggeredAt := Some now\<rparr>,
                  if audioElements (a_sound alert') then Some (a_sound alert') else None)
            else (alert', None))
      else (alert', None))"

text \<open>
  \<open>checkAlerts\<close>: the new alert list, and for each alert, in order, the sound played
  for it.
\<close>

definition checkAlerts :: "(sound \<Rightarrow> bool) \<Rightarrow> nat \<Rightarrow> real \<Rightarrow> alert list \<Rightarrow> alert list \<times> sound option list" where
  "checkAlerts audioElements now price' prevAlerts =
     (map (\<lambda>a. fst (checkAlert audioElements now price' a)) prevAlerts,
      map (\<lambda>a. snd (checkAlert audioElements now price' a)) prevAlerts)"

text \<open>
  A sequence of price updates, each with the clock at that update: the alerts after the
  last one, and the sounds played at each update.
\<close>

fun priceUpdates :: "(sound \<Rightarrow> bool) \<Rightarrow> (nat \<times> real) list \<Rightarrow> alert list \<Rightarrow> alert list \<times> sound option list list" where
  "priceUpdates audioElements [] as = (as, [])"
| "priceUpdates audioElements ((now, p) # ts) as =
     (let (as1, pl) = checkAlerts audioElements now p as;
          (as2, pls) = priceUpdates audioElements ts as1
      in (as2, pl # pls))"

text \<open>The condition of an alert at a price.\<close>

definition reached :: "alert \<Rightarrow> real \<Rightarrow> bool" where
  "reached a p = (if a_type a = ''above'' then p \<ge> a_price a else p \<le> a_price a)"

text \<open>\<open>fetchCurrentPrice\<close>, from the point where the request settles.\<close>

fun fetchCurrentPrice :: "(sound \<Rightarrow> bool) \<Rightarrow> price_data response \<Rightarrow> nat \<Rightarrow> pa_state \<Rightarrow> pa_state" where
  "fetchCurrentPrice audioElements Rejected now s = s\<lparr>pa_isLive := False\<rparr>"
| "fetchCurrentPrice audioElements (Resolved None) now s = s\<lparr>pa_isLive := False\<rparr>"
| "fetchCurrentPrice audioElements (Resolved (Some data)) now s =
     (let (alerts', pl) = checkAlerts audioElements now (or_default (data_price data) 65000) (alerts s)
      in s\<lparr>pa_currentPrice := Some (or_default (data_price data) 65000),
           pa_lastUpdated := Some now,
           pa_isLive := True,
           alerts := alerts',
           played := played s @ List.map_filter id pl\<rparr>)"

text \<open>
  \<open>handleAddAlert\<close>. \<open>parseFloat\<close> is the function of the language, a parameter here;
  \<open>now\<close> is the clock read by \<open>Date.now()\<close> and \<open>new Date()\<close>. The first component of
  the result is the message of the dialog shown when the input is rejected.
\<close>

definition handleAddAlert :: "(string \<Rightarrow> jsnum) \<Rightarrow> nat \<Rightarrow> pa_state \<Rightarrow> string option \<times> pa_state" where
  "handleAddAlert parseFloat now s =
     (let priceValue = parseFloat (alertPrice s)
      in if isNaN priceValue \<or> js_le priceValue (Num 0)
         then (Some ''Per favore inserisci un prezzo valido'', s)
         else (case priceValue of
                 Num v \<Rightarrow>
                   (let newAlert = \<lparr>a_id = now, a_price = v, a_type = alertType s,
                                    a_sound = alertSound s, a_created = now,
                                    triggered = False, triggeredAt = None\<rparr>
                    in (None, s\<lparr>alerts := alerts s @ [newAlert], alertPrice := []\<rparr>))
               | NaN \<Rightarrow> (Some ''Per favore inserisci un prezzo valido'', s)))"

definition handleDeleteAlert :: "nat \<Rightarrow> pa_state \<Rightarrow> pa_state" where
  "handleDeleteAlert id' s = s\<lparr>alerts := filter (\<lambda>a. a_id a \<noteq> id') (alerts s)\<rparr>"

type_synonym pa_arrival = "price_data response \<times> nat"

definition pa_handler :: "(sound \<Rightarrow> bool) \<Rightarrow> pa_arrival \<Rightarrow> pa_state \<Rightarrow> pa_state" where
  "pa_handler audioElements a s = (case a of (r, now) \<Rightarrow> fetchCurrentPrice audioElements r now s)"

section \<open>Liquidity clusters module\<close>

record cluster =
  c_price :: real
  strength :: int
  c_type :: string
  c_distance :: fixed2
  isPsychologicalLevel :: bool

definition numClusters :: "string \<Rightarrow> nat" where
  "numClusters timeframe =
     (if timeframe = ''24h'' then 6 else if timeframe = ''3D'' then 8
      else if timeframe = ''1W'' then 10 else 6)"

text \<open>The first loop of \<open>processClusterData\<close>, at index \<open>i\<close> with \<open>k\<close> iterations left.\<close>

fun pricePointsLoop :: "nat \<Rightarrow> nat \<Rightarrow> real \<Rightarrow> rng \<Rightarrow> nat \<Rightarrow> real list \<times> nat" where
  "pricePointsLoop i 0 cp g n = ([], n)"
| "pricePointsLoop i (Suc k) cp g n =
     (let deviation = (g n * (15 / 100) + 1 / 100) * cp;
          price' = (if i mod 2 = 0 then cp + deviation else cp - deviation);
          (ps, n1) = pricePointsLoop (Suc i) k cp g (Suc n)
      in (price' # ps, n1))"

definition baseStrength :: "string \<Rightarrow> real \<Rightarrow> real" where
  "baseStrength timeframe r =
     (if timeframe = ''24h'' then r * 40 + 20 else if timeframe = ''3D'' then r * 50 + 30
      else if timeframe = ''1W'' then r * 60 + 40 else r * 40 + 20)"

text \<open>The callback mapped over the sorted price points: one draw each.\<close>

definition clusterAt :: "real \<Rightarrow> string \<Rightarrow> real \<Rightarrow> rng \<Rightarrow> nat \<Rightarrow> cluster \<times> nat" where
  "clusterAt currentPrice' timeframe price' g n =
     (let isRoundNumber = (Math_round (price' / 1000) * 1000 = Math_round price');
          isPsychologicalLevel' =
            (isRoundNumber \<or> Math_round (price' / 500) * 500 = Math_round price');
          baseStrength' = baseStrength timeframe (g n);
          strength' = (if isPsychologicalLevel' then min (baseStrength' * (3 / 2)) 100
                       else baseStrength');
          distance' = ((price' - currentPrice') / currentPrice') * 100;
          type = (if price' < currentPrice' then ''support'' else ''resistance'')
      in (\<lparr>c_price = price', strength = Math_round strength', c_type = type,
           c_distance = toFixed2 distance', isPsychologicalLevel = isPsychologicalLevel'\<rparr>,
          Suc n))"

fun clustersMap :: "real \<Rightarrow> string \<Rightarrow> real list \<Rightarrow> rng \<Rightarrow> nat \<Rightarrow> cluster list \<times> nat" where
  "clustersMap cp timeframe [] g n = ([], n)"
| "clustersMap cp timeframe (p # ps) g n =
     (let (c, n1) = clusterAt cp timeframe p g n;
          (cs, n2) = clustersMap cp timeframe ps g n1
      in (c # cs, n2))"

definition processClusterData :: "payload \<Rightarrow> string \<Rightarrow> rng \<Rightarrow> cluster list" where
  "processClusterData data timeframe g =
     (let currentPrice' = or_default (currentPrice data) 65000;
          (clustersPricePoints, n1) = pricePointsLoop 0 (numClusters timeframe) currentPrice' g 0;
          sortedPoints = js_sort (\<lambda>a b. a - b) clustersPricePoints
      in fst (clustersMap currentPrice' timeframe sortedPoints g n1))"

text \<open>
  The two lists of the component, and the rows of the two tables. (\<open>parseFloat\<close> of an
  integer strength is that integer.)
\<close>

definition supportClusters :: "cluster list \<Rightarrow> cluster list" where
  "supportClusters clusters =
     js_sort (\<lambda>a b. strength b - strength a) (filter (\<lambda>c. c_type c = ''support'') clusters)"

definition resistanceClusters :: "cluster list \<Rightarrow> cluster list" where
  "resistanceClusters clusters =
     js_sort (\<lambda>a b. strength b - strength a) (filter (\<lambda>c. c_type c = ''resistance'') clusters)"

definition supportRows :: "cluster list \<Rightarrow> cluster list" where
  "supportRows clusters = slice0 3 (supportClusters clusters)"

definition resistanceRows :: "cluster list \<Rightarrow> cluster list" where
  "resistanceRows clusters = slice0 3 (resistanceClusters clusters)"

section \<open>Whale alerts module\<close>

record transaction =
  t_id :: nat
  t_timestamp :: int
  t_exchange :: string
  t_amount :: real
  t_price :: real
  t_type :: string

record whale_alert =
  w_id :: nat
  w_timestamp :: int
  w_exchange :: string
  w_amount :: real
  w_price :: real
  signalType :: string
  confidence :: int
  targetPrice :: real
  confirmations :: int



definition EXCHANGES :: "string list" where
  "EXCHANGES = [''Binance'', ''OKX'', ''Bybit'', ''Kucoin'', ''Bitget'']"

definition determineSignalType :: "transaction \<Rightarrow> string" where
  "determineSignalType t = (if t_type t = ''buy'' then ''LONG'' else ''SHORT'')"

definition countConfirmations :: "transaction \<Rightarrow> string list \<Rightarrow> rng \<Rightarrow> nat \<Rightarrow> int \<times> nat" where
  "countConfirmations t exchanges g n = (Math_floor (g n * 5) + 1, Suc n)"

definition calculateConfidence :: "transaction \<Rightarrow> string list \<Rightarrow> rng \<Rightarrow> nat \<Rightarrow> int \<times> nat" where
  "calculateConfidence t exchanges g n =
     (let (confirmedExchanges, n1) = countConfirmations t exchanges g n
      in (min (confirmedExchanges * 20) 100, n1))"

definition estimateTargetPrice :: "transaction \<Rightarrow> string \<Rightarrow> rng \<Rightarrow> nat \<Rightarrow> real \<times> nat" where
  "estimateTargetPrice t signalType' g n =
     (let movementPercent = (g n * 3 + 2) / 100
      in (if signalType' = ''LONG'' then t_price t * (1 + movementPercent)
          else t_price t * (1 - movementPercent), Suc n))"

text \<open>The callback of \<open>processWhaleAlerts\<close>: three draws for each transaction.\<close>

definition whaleAlertOf :: "transaction \<Rightarrow> rng \<Rightarrow> nat \<Rightarrow> whale_alert \<times> nat" where
  "whaleAlertOf t g n =
     (let signalType' = determineSignalType t;
          (confidence', n1) = calculateConfidence t EXCHANGES g n;
          (targetPrice', n2) = estimateTargetPrice t signalType' g n1;
          (confirmations', n3) = countConfirmations t EXCHANGES g n2
      in (\<lparr>w_id = t_id t, w_timestamp = t_timestamp t, w_exchange = t_exchange t,
           w_amount = t_amount t, w_price = t_price t, signalType = signalType',
           confidence = confidence', targetPrice = targetPrice',
           confirmations = confirmations'\<rparr>, n3))"

fun whaleMap :: "transaction list \<Rightarrow> rng \<Rightarrow> nat \<Rightarrow> whale_alert list \<times> nat" where
  "whaleMap [] g n = ([], n)"
| "whaleMap (t # ts) g n =
     (let (w, n1) = whaleAlertOf t g n; (ws, n2) = whaleMap ts g n1 in (w # ws, n2))"

definition processWhaleAlerts :: "transaction list \<Rightarrow> rng \<Rightarrow> whale_alert list" where
  "processWhaleAlerts data g =
     js_sort (\<lambda>a b. w_timestamp b - w_timestamp a) (fst (whaleMap data g 0))"




section \<open>Notions used in the statements\<close>

text \<open>
  The support and resistance module and the whale alerts module under the polling
  effect.
\<close>

definition sr_step :: "sr_arrival event \<Rightarrow> sr_state poller \<Rightarrow> sr_state poller" where
  "sr_step = poll_step sr_handler"


text \<open>
  \<open>handleTimeframeChange\<close> sets \<open>selectedTimeframe\<close>, the dependency of the effect of the
  support and resistance module: when the value changes, the cleanup of the effect runs
  and then its body again, while the component stays mounted.
\<close>

definition handleTimeframeChange :: "string \<Rightarrow> sr_state poller \<Rightarrow> sr_state poller" where
  "handleTimeframeChange v p =
     (if v = sr_selectedTimeframe (component p) then p
      else sr_step EffectRun
             (sr_step Cleanup (p\<lparr>component := (component p)\<lparr>sr_selectedTimeframe := v\<rparr>\<rparr>)))"

text \<open>
  The price alert module under the polling effect. Its effect has no dependencies: the
  body runs once, when the component mounts with the initial values of its state, and
  the cleanup runs only when the component unmounts. The interval is registered exactly
  while the component is mounted. The setters of an unmounted component change nothing
  and the function passed to \<open>setAlerts\<close> is not run, so a request that settles after
  the cleanup leaves the state as it is; requests of an earlier mount never reach the
  state of a later one.
\<close>

fun pa_step :: "(sound \<Rightarrow> bool) \<Rightarrow> pa_arrival event \<Rightarrow> pa_state poller \<Rightarrow> pa_state poller" where
  "pa_step audioElements EffectRun p =
     \<lparr>component = pa_initial, timer = True, issued = Suc (issued p), inflight = [issued p]\<rparr>"
| "pa_step audioElements TimerFire p = (if timer p then startFetch p else p)"
| "pa_step audioElements (Settle i a) p =
     (if i \<in> set (inflight p)
      then (if timer p
            then p\<lparr>component := pa_handler audioElements a (component p),
                   inflight := remove1 i (inflight p)\<rparr>
            else p\<lparr>inflight := remove1 i (inflight p)\<rparr>)
      else p)"
| "pa_step audioElements Cleanup p = p\<lparr>timer := False\<rparr>"

text \<open>A fetch fails when the request is rejected or its data is unusable.\<close>

fun failed :: "'d response \<Rightarrow> bool" where
  "failed Rejected = True"
| "failed (Resolved None) = True"
| "failed (Resolved (Some d)) = False"

text \<open>The values that \<open>||\<close> replaces by its right operand.\<close>

fun falsy :: "jsval \<Rightarrow> bool" where
  "falsy JUndefined = True"
| "falsy JNull = True"
| "falsy (JNum x) = (x = 0)"

text \<open>The candidates that the ranking of \<open>processLevelsData\<close> drops: \<open>slice(2)\<close>.\<close>

definition discarded2 :: "level list \<Rightarrow> level list" where
  "discarded2 xs = drop 2 (js_sort (\<lambda>a b. reliability b - reliability a) xs)"

text \<open>The clusters of one type that the table does not show: \<open>slice(3)\<close>.\<close>

definition hiddenRows :: "string \<Rightarrow> cluster list \<Rightarrow> cluster list" where
  "hiddenRows type clusters =
     drop 3 (js_sort (\<lambda>a b. strength b - strength a) (filter (\<lambda>c. c_type c = type) clusters))"

text \<open>The number of updates at which a sound was played for the alert at position \<open>i\<close>.\<close>

definition playsFor :: "nat \<Rightarrow> sound option list list \<Rightarrow> nat" where
  "playsFor i pls = length (filter (\<lambda>pl. pl ! i \<noteq> None) pls)"

text \<open>Draws given by a finite list (and \<open>0\<close> after it), and a level with a given score.\<close>

definition draws :: "real list \<Rightarrow> rng" where
  "draws xs = (\<lambda>i. if i < length xs then xs ! i else 0)"

definition scored :: "int \<Rightarrow> level" where
  "scored r = \<lparr>price = 60000, reliability = r, distance = \<lparr>negative = False, hundredths = 769\<rparr>,
     timesTested = 1, isTrap = False, trapReason = None\<rparr>"

text \<open>
  Draws for which the second and the third support get the same score: for each level
  the deviation, the reliability, the trap and the times tested.
\<close>

definition tie_draws :: rng where
  "tie_draws = draws [1 / 2, 9 / 10, 0, 0,  3 / 4, 2 / 5, 0, 0,  1 / 4, 2 / 5, 0, 0,  1 / 2, 1 / 10, 0, 0]"

text \<open>An alert that waits for the price to reach 70000 from below.\<close>

definition armed :: alert where
  "armed = \<lparr>a_id = 1, a_price = 70000, a_type = ''above'', a_sound = alarm1, a_created = 1,
     triggered = False, triggeredAt = None\<rparr>"

text \<open>A stand-in for \<open>parseFloat\<close> on three inputs of the form.\<close>

definition parse_demo :: "string \<Rightarrow> jsnum" where
  "parse_demo s = (if s = ''70000'' then Num 70000 else if s = ''-5'' then Num (- 5) else NaN)"

section \<open>The sort of the language and the sort of the library\<close>

lemma js_insert_desc:
  fixes key :: "'a \<Rightarrow> int"
  shows "js_insert (\<lambda>a b. key b - key a) x ys = insort_key (\<lambda>x. - key x) x ys"
  by (induction ys) auto

lemma js_sort_desc:
  fixes key :: "'a \<Rightarrow> int"
  shows "js_sort (\<lambda>a b. key b - key a) xs = sort_key (\<lambda>x. - key x) xs"
  by (induction xs) (auto simp: js_sort_def js_insert_desc sort_key_def)

lemma js_insert_asc: "js_insert (\<lambda>a b. a - b) (x::real) ys = insort x ys"
  by (induction ys) auto

lemma js_sort_asc: "js_sort (\<lambda>a b. a - b) (xs::real list) = sort xs"
  by (induction xs) (auto simp: js_sort_def js_insert_asc sort_key_def)

lemma sorted_desc_take_drop:
  fixes key :: "'a \<Rightarrow> int"
  assumes "sorted (map (\<lambda>x. - key x) ys)" "r \<in> set (take n ys)" "d \<in> set (drop n ys)"
  shows "key d \<le> key r"
proof -
  have "sorted (map (\<lambda>x. - key x) (take n ys) @ map (\<lambda>x. - key x) (drop n ys))"
    using assms(1) by (simp flip: map_append)
  then have "- key r \<le> - key d"
    using assms(2,3) by (auto simp: sorted_append)
  then show ?thesis by simp
qed

lemma sorted_wrt_desc:
  fixes key :: "'a \<Rightarrow> int"
  shows "sorted (map (\<lambda>x. - key x) ys) = sorted_wrt (\<lambda>a b. key b \<le> key a) ys"
  by (induction ys) auto

lemma filter_take_prefix: "prefix (filter P (take n xs)) (filter P xs)"
proof -
  have "filter P xs = filter P (take n xs) @ filter P (drop n xs)"
    by (metis append_take_drop_id filter_append)
  then show ?thesis by (metis prefixI)
qed

lemma desc_keys_determined:
  fixes key :: "'a \<Rightarrow> int"
  assumes "mset (map key xs) = mset ks" "sorted (map uminus ks)"
  shows "map key (js_sort (\<lambda>a b. key b - key a) xs) = ks"
proof -
  let ?ys = "sort_key (\<lambda>x. - key x) xs"
  have "mset (map uminus (map key ?ys)) = mset (map uminus ks)"
    using assms(1) by (metis mset_map mset_sort)
  moreover have "sorted (map uminus (map key ?ys))"
    using sorted_sort_key [of "\<lambda>x. - key x" xs] by (simp add: comp_def)
  ultimately have e: "map uminus (map key ?ys) = map uminus ks"
    using assms(2) by (metis properties_for_sort)
  have "map key ?ys = ks"
    by (rule map_injective [OF e]) (simp add: inj_on_def)
  then show ?thesis by (simp add: js_sort_desc)
qed

section \<open>The loops and maps of the processors\<close>

lemma fst_levelsLoop_Suc:
  "fst (levelsLoop body (Suc k) cp g n) =
     fst (body cp g n) # fst (levelsLoop body k cp g (snd (body cp g n)))"
  by (simp add: Let_def case_prod_beta)

lemma levelsLoop_all:
  assumes "\<And>n. P (fst (body cp g n))"
  shows "\<forall>l \<in> set (fst (levelsLoop body k cp g n)). P l"
  using assms by (induction k arbitrary: n) (simp_all add: fst_levelsLoop_Suc del: levelsLoop.simps(2))

lemma levelsLoop_length: "length (fst (levelsLoop body k cp g n)) = k"
  by (induction k arbitrary: n) (simp_all add: fst_levelsLoop_Suc del: levelsLoop.simps(2))

lemma fst_clustersMap_Cons:
  "fst (clustersMap cp tf (p # ps) g n) =
     fst (clusterAt cp tf p g n) # fst (clustersMap cp tf ps g (snd (clusterAt cp tf p g n)))"
  by (simp add: Let_def case_prod_beta)

lemma clustersMap_all:
  assumes "\<And>p n. p \<in> set ps \<Longrightarrow> P (fst (clusterAt cp tf p g n))"
  shows "\<forall>c \<in> set (fst (clustersMap cp tf ps g n)). P c"
  using assms by (induction ps arbitrary: n) (simp_all add: fst_clustersMap_Cons del: clustersMap.simps(2))

lemma fst_whaleMap_Cons:
  "fst (whaleMap (t # ts) g n) =
     fst (whaleAlertOf t g n) # fst (whaleMap ts g (snd (whaleAlertOf t g n)))"
  by (simp add: Let_def case_prod_beta)

lemma whaleMap_all:
  assumes "\<And>t n. P (fst (whaleAlertOf t g n))"
  shows "\<forall>w \<in> set (fst (whaleMap ts g n)). P w"
  using assms by (induction ts arbitrary: n) (simp_all add: fst_whaleMap_Cons del: whaleMap.simps(2))

lemma set_js_sort_desc:
  fixes key :: "'a \<Rightarrow> int"
  shows "set (js_sort (\<lambda>a b. key b - key a) xs) = set xs"
  by (simp add: js_sort_desc)

lemma set_sortedTop2: "set (sortedTop2 xs) \<subseteq> set xs"
  using set_take_subset [of 2 "sort_key (\<lambda>x. - reliability x) xs"]
  by (simp add: sortedTop2_def slice0_def js_sort_desc)

section \<open>Ranking: the retained levels are the highest scored\<close>

text \<open>
  Claim C6. The two levels that \<open>processLevelsData\<close> retains from a list of candidates
  are in descending order of score; retained and dropped levels together are the
  candidates; no retained level has a lower score than a dropped one. Whatever the order
  of five candidates with the scores 90, 85, 70, 60 and 40, the retained scores are 90
  and 85.
\<close>

theorem top2_ranking:
  "sorted_wrt (\<lambda>a b. reliability b \<le> reliability a) (sortedTop2 cands)
   \<and> mset (sortedTop2 cands) + mset (discarded2 cands) = mset cands
   \<and> (\<forall>r \<in> set (sortedTop2 cands). \<forall>d \<in> set (discarded2 cands). reliability d \<le> reliability r)
   \<and> (mset (map reliability cands) = {#90, 85, 70, 60, 40#}
        \<longrightarrow> map reliability (sortedTop2 cands) = [90, 85])"
proof -
  let ?ys = "sort_key (\<lambda>x. - reliability x) cands"
  have s: "sorted (map (\<lambda>x. - reliability x) ?ys)" by (rule sorted_sort_key)
  have t: "sortedTop2 cands = take 2 ?ys" by (simp add: sortedTop2_def slice0_def js_sort_desc)
  have d: "discarded2 cands = drop 2 ?ys" by (simp add: discarded2_def js_sort_desc)
  have 1: "sorted_wrt (\<lambda>a b. reliability b \<le> reliability a) (sortedTop2 cands)"
    using s unfolding t by (metis sorted_wrt_desc sorted_wrt_take)
  have 2: "mset (sortedTop2 cands) + mset (discarded2 cands) = mset cands"
    unfolding t d by (metis append_take_drop_id mset_append mset_sort)
  have 3: "\<forall>r \<in> set (sortedTop2 cands). \<forall>d \<in> set (discarded2 cands). reliability d \<le> reliability r"
    unfolding t d using sorted_desc_take_drop [OF s] by blast
  have 4: "map reliability (sortedTop2 cands) = [90, 85]"
    if "mset (map reliability cands) = {#90, 85, 70, 60, 40#}"
  proof -
    have "map reliability (js_sort (\<lambda>a b. reliability b - reliability a) cands) = [90, 85, 70, 60, 40]"
      by (rule desc_keys_determined) (use that in simp_all)
    then show ?thesis by (simp add: sortedTop2_def slice0_def take_map [symmetric] del: take_map)
  qed
  from 1 2 3 4 show ?thesis by blast
qed

theorem top2_ranking_witness:
  "mset (map reliability (map scored [60, 90, 40, 85, 70])) = {#90, 85, 70, 60, 40#}
   \<and> map reliability (sortedTop2 (map scored [60, 90, 40, 85, 70])) = [90, 85]
   \<and> scored 85 \<in> set (sortedTop2 (map scored [60, 90, 40, 85, 70]))
   \<and> scored 70 \<in> set (discarded2 (map scored [60, 90, 40, 85, 70]))
   \<and> reliability (scored 70) \<le> reliability (scored 85)"
proof -
  let ?c = "map scored [60, 90, 40, 85, 70]"
  have m: "mset (map reliability ?c) = {#90, 85, 70, 60, 40#}"
    by (simp add: scored_def)
  have k: "scored 85 \<in> set (sortedTop2 ?c)"
    by (simp add: scored_def sortedTop2_def js_sort_def slice0_def)
  have d: "scored 70 \<in> set (discarded2 ?c)"
    by (simp add: scored_def discarded2_def js_sort_def)
  from top2_ranking [of ?c] m k d show ?thesis by blast
qed

section \<open>Ranking: equal scores keep the order of the candidates\<close>

lemma stable_prefix:
  fixes key :: "'a \<Rightarrow> int"
  shows "prefix (filter (\<lambda>x. key x = k) (take n (js_sort (\<lambda>a b. key b - key a) xs)))
                (filter (\<lambda>x. key x = k) xs)"
proof -
  have "filter (\<lambda>x. - key x = - k) (sort_key (\<lambda>x. - key x) xs) = filter (\<lambda>x. - key x = - k) xs"
    by (rule sort_key_stable)
  then have "filter (\<lambda>x. key x = k) (js_sort (\<lambda>a b. key b - key a) xs) = filter (\<lambda>x. key x = k) xs"
    by (simp add: js_sort_desc)
  then show ?thesis
    by (metis filter_take_prefix)
qed

lemma take_sorted_desc:
  fixes key :: "'a \<Rightarrow> int"
  shows "sorted_wrt (\<lambda>a b. key b \<le> key a) (take n (js_sort (\<lambda>a b. key b - key a) xs))"
  by (metis js_sort_desc sorted_sort_key sorted_wrt_desc sorted_wrt_take)

lemma length_js_sort_desc:
  fixes key :: "'a \<Rightarrow> int"
  shows "length (js_sort (\<lambda>a b. key b - key a) xs) = length xs"
  by (simp add: js_sort_desc)

lemma candidateLevels_length:
  "length (fst (candidateLevels data g)) = 4" "length (snd (candidateLevels data g)) = 4"
  by (simp_all add: candidateLevels_def Let_def case_prod_beta levelsLoop_length)

lemma processLevelsData_alt:
  "supports (processLevelsData data g) = sortedTop2 (fst (candidateLevels data g))"
  "resistances (processLevelsData data g) = sortedTop2 (snd (candidateLevels data g))"
  by (simp_all add: processLevelsData_def Let_def case_prod_beta)

lemma fst_clustersMap_prices: "map c_price (fst (clustersMap cp tf ps g n)) = ps"
  by (induction ps arbitrary: n)
     (simp_all add: fst_clustersMap_Cons clusterAt_def Let_def del: clustersMap.simps(2))

lemma processClusterData_ascending: "sorted (map c_price (processClusterData data tf g))"
  by (simp add: processClusterData_def Let_def case_prod_beta fst_clustersMap_prices js_sort_asc)

text \<open>
  Claim C3, as the code has it. \<open>processLevelsData\<close> retains two supports and two
  resistances, the tables of the liquidity clusters show at most three clusters of each
  type; in both the retained ones are in descending order of score and no dropped
  candidate has a higher score. The sort compares the scores only and is stable: for
  every score \<open>k\<close>, the retained candidates of score \<open>k\<close> are the first ones of score
  \<open>k\<close> in the order of the candidates, which is the order of generation for the levels
  and the ascending order of price for the clusters. The distance plays no part.
\<close>

theorem ranking_ties_in_order:
  "length (supports (processLevelsData data g)) = 2
   \<and> length (resistances (processLevelsData data g)) = 2
   \<and> sorted_wrt (\<lambda>a b. reliability b \<le> reliability a) (supports (processLevelsData data g))
   \<and> sorted_wrt (\<lambda>a b. reliability b \<le> reliability a) (resistances (processLevelsData data g))
   \<and> (\<forall>r \<in> set (supports (processLevelsData data g)).
        \<forall>d \<in> set (discarded2 (fst (candidateLevels data g))). reliability d \<le> reliability r)
   \<and> (\<forall>r \<in> set (resistances (processLevelsData data g)).
        \<forall>d \<in> set (discarded2 (snd (candidateLevels data g))). reliability d \<le> reliability r)
   \<and> prefix (filter (\<lambda>l. reliability l = k) (supports (processLevelsData data g)))
             (filter (\<lambda>l. reliability l = k) (fst (candidateLevels data g)))
   \<and> prefix (filter (\<lambda>l. reliability l = k) (resistances (processLevelsData data g)))
             (filter (\<lambda>l. reliability l = k) (snd (candidateLevels data g)))
   \<and> length (supportRows clusters) = min 3 (length (filter (\<lambda>c. c_type c = ''support'') clusters))
   \<and> length (resistanceRows clusters) = min 3 (length (filter (\<lambda>c. c_type c = ''resistance'') clusters))
   \<and> sorted_wrt (\<lambda>a b. strength b \<le> strength a) (supportRows clusters)
   \<and> sorted_wrt (\<lambda>a b. strength b \<le> strength a) (resistanceRows clusters)
   \<and> (\<forall>r \<in> set (supportRows clusters). \<forall>d \<in> set (hiddenRows ''support'' clusters). strength d \<le> strength r)
   \<and> (\<forall>r \<in> set (resistanceRows clusters). \<forall>d \<in> set (hiddenRows ''resistance'' clusters). strength d \<le> strength r)
   \<and> prefix (filter (\<lambda>c. strength c = k) (supportRows clusters))
             (filter (\<lambda>c. strength c = k) (filter (\<lambda>c. c_type c = ''support'') clusters))
   \<and> prefix (filter (\<lambda>c. strength c = k) (resistanceRows clusters))
             (filter (\<lambda>c. strength c = k) (filter (\<lambda>c. c_type c = ''resistance'') clusters))
   \<and> sorted (map c_price (processClusterData data tf g))"
proof -
  have dom: "\<forall>r \<in> set (take n (js_sort (\<lambda>a b. key b - key a) xs)).
             \<forall>d \<in> set (drop n (js_sort (\<lambda>a b. key b - key a) xs)). key d \<le> key r"
    for n and key :: "'a \<Rightarrow> int" and xs
    using sorted_desc_take_drop [OF sorted_sort_key [of "\<lambda>x. - key x" xs]]
    by (simp add: js_sort_desc)
  show ?thesis
    unfolding processLevelsData_alt sortedTop2_def discarded2_def supportRows_def resistanceRows_def
      supportClusters_def resistanceClusters_def hiddenRows_def slice0_def
    by (intro conjI stable_prefix take_sorted_desc dom processClusterData_ascending)
       (simp_all add: length_js_sort_desc candidateLevels_length)
qed

theorem ranking_ties_in_order_witness:
  "map reliability (supports (processLevelsData \<lparr>currentPrice = JNum 65000\<rparr> tie_draws)) = [75, 50]
   \<and> map reliability (discarded2 (fst (candidateLevels \<lparr>currentPrice = JNum 65000\<rparr> tie_draws))) = [50, 35]
   \<and> reliability (discarded2 (fst (candidateLevels \<lparr>currentPrice = JNum 65000\<rparr> tie_draws)) ! 0)
       \<le> reliability (supports (processLevelsData \<lparr>currentPrice = JNum 65000\<rparr> tie_draws) ! 1)
   \<and> prefix (filter (\<lambda>l. reliability l = 50) (supports (processLevelsData \<lparr>currentPrice = JNum 65000\<rparr> tie_draws)))
             (filter (\<lambda>l. reliability l = 50) (fst (candidateLevels \<lparr>currentPrice = JNum 65000\<rparr> tie_draws)))
   \<and> map strength (supportRows (processClusterData \<lparr>currentPrice = JNum 65000\<rparr> ''1W'' (\<lambda>_. 1 / 2))) = [70, 70, 70]
   \<and> map strength (hiddenRows ''support'' (processClusterData \<lparr>currentPrice = JNum 65000\<rparr> ''1W'' (\<lambda>_. 1 / 2))) = [70, 70]
   \<and> strength (hiddenRows ''support'' (processClusterData \<lparr>currentPrice = JNum 65000\<rparr> ''1W'' (\<lambda>_. 1 / 2)) ! 0)
       \<le> strength (supportRows (processClusterData \<lparr>currentPrice = JNum 65000\<rparr> ''1W'' (\<lambda>_. 1 / 2)) ! 2)"
proof -
  let ?L = "supports (processLevelsData \<lparr>currentPrice = JNum 65000\<rparr> tie_draws)"
  let ?D = "discarded2 (fst (candidateLevels \<lparr>currentPrice = JNum 65000\<rparr> tie_draws))"
  let ?R = "supportRows (processClusterData \<lparr>currentPrice = JNum 65000\<rparr> ''1W'' (\<lambda>_. 1 / 2))"
  let ?H = "hiddenRows ''support'' (processClusterData \<lparr>currentPrice = JNum 65000\<rparr> ''1W'' (\<lambda>_. 1 / 2))"
  have a: "map reliability ?L = [75, 50]"
    by code_simp
  have b: "map reliability ?D = [50, 35]"
    by code_simp
  have c: "map strength ?R = [70, 70, 70]"
    by code_simp
  have d: "map strength ?H = [70, 70]"
    by code_simp
  have "length ?L = 2" "length ?D = 2" "length ?R = 3" "length ?H = 2"
    using arg_cong [OF a, of length] arg_cong [OF b, of length]
      arg_cong [OF c, of length] arg_cong [OF d, of length] by simp_all
  then have m: "?L ! 1 \<in> set ?L" "?D ! 0 \<in> set ?D" "?R ! 2 \<in> set ?R" "?H ! 0 \<in> set ?H"
    by simp_all
  from ranking_ties_in_order [of "\<lparr>currentPrice = JNum 65000\<rparr>" tie_draws 50
      "processClusterData \<lparr>currentPrice = JNum 65000\<rparr> ''1W'' (\<lambda>_. 1 / 2)"] m
  have "reliability (?D ! 0) \<le> reliability (?L ! 1) \<and> strength (?H ! 0) \<le> strength (?R ! 2)
      \<and> prefix (filter (\<lambda>l. reliability l = 50) ?L)
             (filter (\<lambda>l. reliability l = 50) (fst (candidateLevels \<lparr>currentPrice = JNum 65000\<rparr> tie_draws)))"
    by blast
  with a b c d show ?thesis by blast
qed

text \<open>
  Claim C3 as stated fails where it breaks a tie by the distance: of the four supports
  with the scores 75, 50, 50 and 35 and the distances 8.00, 11.00, 5.00 and 8.00, the
  one of score 50 that is retained is the one generated first, at the distance 11.00,
  and not the closer one at 5.00.
\<close>

theorem tie_break_counterexample:
  "map (\<lambda>l. (reliability l, hundredths (distance l)))
       (fst (candidateLevels \<lparr>currentPrice = JNum 65000\<rparr> tie_draws))
     = [(75, 800), (50, 1100), (50, 500), (35, 800)]
   \<and> map (\<lambda>l. (reliability l, hundredths (distance l)))
       (supports (processLevelsData \<lparr>currentPrice = JNum 65000\<rparr> tie_draws))
     = [(75, 800), (50, 1100)]"
  by code_simp

section \<open>Scores lie between 0 and 100\<close>

lemma Math_round_bounds:
  assumes "lo \<le> x" "x \<le> hi"
  shows "\<lfloor>lo\<rfloor> \<le> Math_round x" "Math_round x \<le> \<lceil>hi\<rceil>"
  using assms unfolding Math_round_def by linarith+

lemma Math_round_0_100: "0 \<le> x \<Longrightarrow> x \<le> 100 \<Longrightarrow> 0 \<le> Math_round x \<and> Math_round x \<le> 100"
  unfolding Math_round_def by linarith

lemma calculateReliability_range:
  assumes "0 \<le> g n" "g n < 1"
  shows "0 \<le> fst (calculateReliability p cp ty g n) \<and> fst (calculateReliability p cp ty g n) \<le> 100"
  using assms by (auto simp: calculateReliability_def Let_def intro!: Math_round_0_100)

lemma calculateReliability_cursor: "snd (calculateReliability p cp ty g n) = Suc n"
  by (simp add: calculateReliability_def Let_def)

lemma supportLevel_reliability:
  "reliability (fst (supportLevel cp g n)) = fst (calculateReliability (cp - (g n * (12 / 100) + 2 / 100) * cp) cp ''support'' g (Suc n))"
  by (simp add: supportLevel_def Let_def split: prod.splits)

lemma resistanceLevel_reliability:
  "reliability (fst (resistanceLevel cp g n)) = fst (calculateReliability (cp + (g n * (12 / 100) + 2 / 100) * cp) cp ''resistance'' g (Suc n))"
  by (simp add: resistanceLevel_def Let_def split: prod.splits)

lemma baseStrength_range: "0 \<le> r \<Longrightarrow> r < 1 \<Longrightarrow> 20 \<le> baseStrength tf r \<and> baseStrength tf r < 100"
  by (auto simp: baseStrength_def)

lemma clusterAt_strength:
  assumes "0 \<le> g n" "g n < 1"
  shows "0 \<le> strength (fst (clusterAt cp tf p g n)) \<and> strength (fst (clusterAt cp tf p g n)) \<le> 100"
  using baseStrength_range [OF assms, of tf]
  by (auto simp: clusterAt_def Let_def intro!: Math_round_0_100)

lemma calculateConfidence_range:
  assumes "0 \<le> g n" "g n < 1"
  shows "0 \<le> fst (calculateConfidence t ex g n) \<and> fst (calculateConfidence t ex g n) \<le> 100"
proof -
  have "0 \<le> \<lfloor>g n * 5\<rfloor>" using assms by simp
  then show ?thesis
    by (simp add: calculateConfidence_def countConfirmations_def Math_floor_def)
qed

lemma whaleAlertOf_confidence:
  "confidence (fst (whaleAlertOf t g n)) = fst (calculateConfidence t EXCHANGES g n)"
  by (simp add: whaleAlertOf_def Let_def split: prod.splits)

text \<open>
  Claim C7. When every draw of \<open>Math.random\<close> lies in \<open>[0, 1)\<close>, every score lies
  in \<open>[0, 100]\<close>: the reliability computed by \<open>calculateReliability\<close> (after the
  boost for psychological levels) and carried by every candidate and every retained
  support and resistance level, the strength of every liquidity cluster (after its boost),
  and the confidence computed by \<open>calculateConfidence\<close> (20 for each confirming
  exchange) and carried by every whale alert.
\<close>

theorem scores_in_range:
  assumes "unit_draws g"
  shows "(0 \<le> fst (calculateReliability p cp ty g n) \<and> fst (calculateReliability p cp ty g n) \<le> 100)
    \<and> (\<forall>l \<in> set (fst (candidateLevels data g)) \<union> set (snd (candidateLevels data g)).
          0 \<le> reliability l \<and> reliability l \<le> 100)
    \<and> (\<forall>l \<in> set (supports (processLevelsData data g)) \<union> set (resistances (processLevelsData data g)).
          0 \<le> reliability l \<and> reliability l \<le> 100)
    \<and> (\<forall>c \<in> set (processClusterData data tf g). 0 \<le> strength c \<and> strength c \<le> 100)
    \<and> (0 \<le> fst (calculateConfidence t ex g n) \<and> fst (calculateConfidence t ex g n) \<le> 100)
    \<and> (\<forall>w \<in> set (processWhaleAlerts txs g). 0 \<le> confidence w \<and> confidence w \<le> 100)"
proof -
  have u: "0 \<le> g i" "g i < 1" for i
    using assms by (simp_all add: unit_draws_def)
  let ?R = "\<lambda>l. 0 \<le> reliability l \<and> reliability l \<le> 100"
  have a: "0 \<le> fst (calculateReliability p cp ty g n) \<and> fst (calculateReliability p cp ty g n) \<le> 100"
    by (rule calculateReliability_range) (rule u)+
  have s: "\<forall>l \<in> set (fst (levelsLoop supportLevel k c g m)). ?R l" for k c m
    by (rule levelsLoop_all) (simp add: supportLevel_reliability calculateReliability_range u)
  have r: "\<forall>l \<in> set (fst (levelsLoop resistanceLevel k c g m)). ?R l" for k c m
    by (rule levelsLoop_all) (simp add: resistanceLevel_reliability calculateReliability_range u)
  have b: "\<forall>l \<in> set (fst (candidateLevels data g)) \<union> set (snd (candidateLevels data g)). ?R l"
    using s r by (auto simp: candidateLevels_def Let_def case_prod_beta)
  have c: "\<forall>l \<in> set (supports (processLevelsData data g)) \<union> set (resistances (processLevelsData data g)). ?R l"
    using b set_sortedTop2 by (fastforce simp: processLevelsData_def Let_def case_prod_beta)
  have d: "\<forall>c \<in> set (processClusterData data tf g). 0 \<le> strength c \<and> strength c \<le> 100"
    unfolding processClusterData_def Let_def case_prod_beta
    by (rule clustersMap_all) (rule clusterAt_strength, (rule u)+)
  have e: "0 \<le> fst (calculateConfidence t ex g n) \<and> fst (calculateConfidence t ex g n) \<le> 100"
    by (rule calculateConfidence_range) (rule u)+
  have "\<forall>w \<in> set (fst (whaleMap txs g 0)). 0 \<le> confidence w \<and> confidence w \<le> 100"
    by (rule whaleMap_all) (simp add: whaleAlertOf_confidence calculateConfidence_range u)
  then have f: "\<forall>w \<in> set (processWhaleAlerts txs g). 0 \<le> confidence w \<and> confidence w \<le> 100"
    by (simp add: processWhaleAlerts_def js_sort_desc)
  from a b c d e f show ?thesis by blast
qed

theorem scores_in_range_witness:
  "unit_draws (\<lambda>_. 1 / 2)
   \<and> fst (calculateReliability 60000 65000 ''support'' (\<lambda>_. 1 / 2) 0) = 69
   \<and> map reliability (supports (processLevelsData \<lparr>currentPrice = JNum 65000\<rparr> (\<lambda>_. 1 / 2))) = [55, 55]
   \<and> 0 \<le> reliability (supports (processLevelsData \<lparr>currentPrice = JNum 65000\<rparr> (\<lambda>_. 1 / 2)) ! 0)
   \<and> reliability (supports (processLevelsData \<lparr>currentPrice = JNum 65000\<rparr> (\<lambda>_. 1 / 2)) ! 0) \<le> 100
   \<and> map strength (processClusterData \<lparr>currentPrice = JNum 65000\<rparr> ''24h'' (\<lambda>_. 1 / 2)) = [40, 40, 40, 40, 40, 40]
   \<and> strength (processClusterData \<lparr>currentPrice = JNum 65000\<rparr> ''24h'' (\<lambda>_. 1 / 2) ! 0) \<le> 100
   \<and> map confidence (processWhaleAlerts
         [\<lparr>t_id = 1, t_timestamp = 1000, t_exchange = ''Binance'', t_amount = 12, t_price = 65000,
           t_type = ''buy''\<rparr>] (\<lambda>_. 1 / 2)) = [60]"
proof -
  let ?L = "supports (processLevelsData \<lparr>currentPrice = JNum 65000\<rparr> (\<lambda>_. 1 / 2))"
  let ?C = "processClusterData \<lparr>currentPrice = JNum 65000\<rparr> ''24h'' (\<lambda>_. 1 / 2)"
  have u: "unit_draws (\<lambda>_. 1 / 2)"
    by (simp add: unit_draws_def)
  have r: "fst (calculateReliability 60000 65000 ''support'' (\<lambda>_. 1 / 2) 0) = 69"
    by (simp add: calculateReliability_def Math_round_def)
  have l: "map reliability ?L = [55, 55]"
    by code_simp
  have c: "map strength ?C = [40, 40, 40, 40, 40, 40]"
    by code_simp
  have w: "map confidence (processWhaleAlerts
         [\<lparr>t_id = 1, t_timestamp = 1000, t_exchange = ''Binance'', t_amount = 12, t_price = 65000,
           t_type = ''buy''\<rparr>] (\<lambda>_. 1 / 2)) = [60]"
    by code_simp
  have "length ?L = 2" "length ?C = 6"
    using arg_cong [OF l, of length] arg_cong [OF c, of length] by simp_all
  then have m: "?L ! 0 \<in> set ?L" "?C ! 0 \<in> set ?C"
    by simp_all
  from scores_in_range [OF u, where data = "\<lparr>currentPrice = JNum 65000\<rparr>" and tf = "''24h''"] m
  have "0 \<le> reliability (?L ! 0) \<and> reliability (?L ! 0) \<le> 100 \<and> strength (?C ! 0) \<le> 100"
    by blast
  with u r l c w show ?thesis by blast
qed

section \<open>The sign of the distance\<close>

lemma toFixed2_pos: "1 / 200 \<le> x \<Longrightarrow> \<not> negative (toFixed2 x) \<and> 0 < hundredths (toFixed2 x)"
  by (auto simp: toFixed2_def)

lemma toFixed2_neg: "x \<le> - (1 / 200) \<Longrightarrow> negative (toFixed2 x) \<and> 0 < hundredths (toFixed2 x)"
  by (auto simp: toFixed2_def)

lemma supportLevel_fields:
  "price (fst (supportLevel cp g n)) = cp - (g n * (12 / 100) + 2 / 100) * cp"
  "distance (fst (supportLevel cp g n)) = toFixed2 (((cp - (cp - (g n * (12 / 100) + 2 / 100) * cp)) / cp) * 100)"
  by (simp_all add: supportLevel_def Let_def case_prod_beta)

lemma resistanceLevel_fields:
  "price (fst (resistanceLevel cp g n)) = cp + (g n * (12 / 100) + 2 / 100) * cp"
  "distance (fst (resistanceLevel cp g n)) = toFixed2 ((((cp + (g n * (12 / 100) + 2 / 100) * cp) - cp) / cp) * 100)"
  by (simp_all add: resistanceLevel_def Let_def case_prod_beta)

lemma supportLevel_unsigned:
  assumes "0 \<le> g n" "0 < cp"
  shows "price (fst (supportLevel cp g n)) < cp \<and> \<not> negative (distance (fst (supportLevel cp g n)))
         \<and> 0 < hundredths (distance (fst (supportLevel cp g n)))"
proof -
  let ?d = "g n * (12 / 100) + 2 / 100"
  have d: "2 / 100 \<le> ?d" using assms by simp
  then have "0 < ?d * cp" using assms by simp
  moreover have "((cp - (cp - ?d * cp)) / cp) * 100 = ?d * 100" using assms by simp
  moreover have "1 / 200 \<le> ?d * 100" using d by simp
  ultimately show ?thesis
    by (simp only: supportLevel_fields) (metis toFixed2_pos diff_less_eq less_add_same_cancel1)
qed

lemma resistanceLevel_unsigned:
  assumes "0 \<le> g n" "0 < cp"
  shows "cp < price (fst (resistanceLevel cp g n)) \<and> \<not> negative (distance (fst (resistanceLevel cp g n)))
         \<and> 0 < hundredths (distance (fst (resistanceLevel cp g n)))"
proof -
  let ?d = "g n * (12 / 100) + 2 / 100"
  have d: "2 / 100 \<le> ?d" using assms by simp
  then have "0 < ?d * cp" using assms by simp
  moreover have "(((cp + ?d * cp) - cp) / cp) * 100 = ?d * 100" using assms by simp
  moreover have "1 / 200 \<le> ?d * 100" using d by simp
  ultimately show ?thesis
    by (simp only: resistanceLevel_fields) (metis toFixed2_pos less_add_same_cancel1)
qed

lemma fst_pricePointsLoop_Suc:
  "fst (pricePointsLoop i (Suc k) cp g n) =
     (if i mod 2 = 0 then cp + (g n * (15 / 100) + 1 / 100) * cp
      else cp - (g n * (15 / 100) + 1 / 100) * cp)
     # fst (pricePointsLoop (Suc i) k cp g (Suc n))"
  by (simp add: Let_def case_prod_beta)

lemma pricePoints_apart:
  assumes "\<And>i. 0 \<le> g i" "0 < cp"
  shows "\<forall>p \<in> set (fst (pricePointsLoop i k cp g n)). cp / 100 \<le> \<bar>p - cp\<bar>"
proof (induction k arbitrary: i n)
  case 0
  show ?case by simp
next
  case (Suc k)
  define D where "D = (g n * (15 / 100) + 1 / 100) * cp"
  have "cp / 100 \<le> D"
    using assms(1) [of n] assms(2) by (simp add: D_def field_simps)
  then have "cp / 100 \<le> \<bar>cp + D - cp\<bar>" "cp / 100 \<le> \<bar>cp - D - cp\<bar>"
    by linarith+
  then have "cp / 100 \<le> \<bar>(if i mod 2 = 0 then cp + D else cp - D) - cp\<bar>"
    by presburger
  then show ?case
    using Suc unfolding fst_pricePointsLoop_Suc D_def by simp
qed

lemma clusterAt_fields:
  "c_price (fst (clusterAt cp tf p g n)) = p"
  "c_distance (fst (clusterAt cp tf p g n)) = toFixed2 (((p - cp) / cp) * 100)"
  by (simp_all add: clusterAt_def Let_def)

lemma clusterAt_signed:
  assumes "0 < cp" "cp / 100 \<le> \<bar>p - cp\<bar>"
  shows "(cp < c_price (fst (clusterAt cp tf p g n))
            \<longrightarrow> \<not> negative (c_distance (fst (clusterAt cp tf p g n)))
                \<and> 0 < hundredths (c_distance (fst (clusterAt cp tf p g n))))
       \<and> (c_price (fst (clusterAt cp tf p g n)) < cp
            \<longrightarrow> negative (c_distance (fst (clusterAt cp tf p g n)))
                \<and> 0 < hundredths (c_distance (fst (clusterAt cp tf p g n))))"
proof -
  have a: "1 / 200 \<le> ((p - cp) / cp) * 100" if "cp < p"
  proof -
    have "cp / 100 \<le> p - cp" using assms(2) that by simp
    then have "1 \<le> ((p - cp) / cp) * 100" using assms(1) by (simp add: field_simps)
    then show ?thesis by linarith
  qed
  have b: "((p - cp) / cp) * 100 \<le> - (1 / 200)" if "p < cp"
  proof -
    have "cp / 100 \<le> cp - p" using assms(2) that by simp
    then have "((p - cp) / cp) * 100 \<le> - 1" using assms(1) by (simp add: field_simps)
    then show ?thesis by linarith
  qed
  show ?thesis
    using a b by (simp only: clusterAt_fields) (metis toFixed2_pos toFixed2_neg)
qed

text \<open>
  Claim C5, as the code has it. With draws in \<open>[0, 1)\<close> and a positive reference price:
  the distance of a liquidity cluster is signed, positive for a cluster above the
  reference price and negative for one below it; the distance of a support or resistance
  level is unsigned, a positive magnitude both for a support (whose price is below the
  reference price) and for a resistance (whose price is above it). The tables of that
  module print the sign in front of it.
\<close>

theorem distance_sign:
  assumes "unit_draws g" "0 < or_default (currentPrice data) 65000"
  shows "(\<forall>c \<in> set (processClusterData data tf g).
            (or_default (currentPrice data) 65000 < c_price c
               \<longrightarrow> \<not> negative (c_distance c) \<and> 0 < hundredths (c_distance c))
          \<and> (c_price c < or_default (currentPrice data) 65000
               \<longrightarrow> negative (c_distance c) \<and> 0 < hundredths (c_distance c)))
       \<and> (\<forall>l \<in> set (supports (processLevelsData data g)).
            price l < or_default (currentPrice data) 65000
          \<and> \<not> negative (distance l) \<and> 0 < hundredths (distance l))
       \<and> (\<forall>l \<in> set (resistances (processLevelsData data g)).
            or_default (currentPrice data) 65000 < price l
          \<and> \<not> negative (distance l) \<and> 0 < hundredths (distance l))"
proof -
  let ?cp = "or_default (currentPrice data) 65000"
  have u: "0 \<le> g i" for i
    using assms(1) by (simp add: unit_draws_def)
  have pts: "\<forall>p \<in> set (js_sort (\<lambda>a b. a - b) (fst (pricePointsLoop 0 (numClusters tf) ?cp g 0))).
               ?cp / 100 \<le> \<bar>p - ?cp\<bar>"
    using pricePoints_apart [of g ?cp 0 "numClusters tf" 0] u assms(2)
    by (simp add: js_sort_asc)
  have c: "\<forall>c \<in> set (processClusterData data tf g).
            (?cp < c_price c \<longrightarrow> \<not> negative (c_distance c) \<and> 0 < hundredths (c_distance c))
          \<and> (c_price c < ?cp \<longrightarrow> negative (c_distance c) \<and> 0 < hundredths (c_distance c))"
    unfolding processClusterData_def Let_def case_prod_beta
    by (rule clustersMap_all) (rule clusterAt_signed [OF assms(2)], use pts in blast)
  have s: "\<forall>l \<in> set (fst (levelsLoop supportLevel k ?cp g m)).
             price l < ?cp \<and> \<not> negative (distance l) \<and> 0 < hundredths (distance l)" for k m
    by (rule levelsLoop_all) (rule supportLevel_unsigned [OF u assms(2)])
  have r: "\<forall>l \<in> set (fst (levelsLoop resistanceLevel k ?cp g m)).
             ?cp < price l \<and> \<not> negative (distance l) \<and> 0 < hundredths (distance l)" for k m
    by (rule levelsLoop_all) (rule resistanceLevel_unsigned [OF u assms(2)])
  have s': "\<forall>l \<in> set (supports (processLevelsData data g)).
             price l < ?cp \<and> \<not> negative (distance l) \<and> 0 < hundredths (distance l)"
    using s [of 4 0] set_sortedTop2
    by (fastforce simp: processLevelsData_def candidateLevels_def Let_def case_prod_beta)
  have r': "\<forall>l \<in> set (resistances (processLevelsData data g)).
             ?cp < price l \<and> \<not> negative (distance l) \<and> 0 < hundredths (distance l)"
    using r [of 4] set_sortedTop2
    by (fastforce simp: processLevelsData_def candidateLevels_def Let_def case_prod_beta)
  from c s' r' show ?thesis by blast
qed

theorem distance_sign_witness:
  "unit_draws (\<lambda>_. 1 / 2) \<and> (0::real) < or_default (currentPrice \<lparr>currentPrice = JNum 65000\<rparr>) 65000
   \<and> map c_price (processClusterData \<lparr>currentPrice = JNum 65000\<rparr> ''24h'' (\<lambda>_. 1 / 2))
       = [59475, 59475, 59475, 70525, 70525, 70525]
   \<and> negative (c_distance (processClusterData \<lparr>currentPrice = JNum 65000\<rparr> ''24h'' (\<lambda>_. 1 / 2) ! 0))
   \<and> \<not> negative (c_distance (processClusterData \<lparr>currentPrice = JNum 65000\<rparr> ''24h'' (\<lambda>_. 1 / 2) ! 3))
   \<and> map price (supports (processLevelsData \<lparr>currentPrice = JNum 65000\<rparr> (\<lambda>_. 1 / 2))) = [59800, 59800]
   \<and> \<not> negative (distance (supports (processLevelsData \<lparr>currentPrice = JNum 65000\<rparr> (\<lambda>_. 1 / 2)) ! 0))"
proof -
  let ?L = "supports (processLevelsData \<lparr>currentPrice = JNum 65000\<rparr> (\<lambda>_. 1 / 2))"
  let ?C = "processClusterData \<lparr>currentPrice = JNum 65000\<rparr> ''24h'' (\<lambda>_. 1 / 2)"
  have u: "unit_draws (\<lambda>_. 1 / 2)"
    by (simp add: unit_draws_def)
  have p: "(0::real) < or_default (currentPrice \<lparr>currentPrice = JNum 65000\<rparr>) 65000"
    by simp
  have c: "map c_price ?C = [59475, 59475, 59475, 70525, 70525, 70525]"
    by code_simp
  have l: "map price ?L = [59800, 59800]"
    by code_simp
  have "length ?L = 2" "length ?C = 6"
    using arg_cong [OF l, of length] arg_cong [OF c, of length] by simp_all
  then have m: "?L ! 0 \<in> set ?L" "?C ! 0 \<in> set ?C" "?C ! 3 \<in> set ?C"
    by simp_all
  have "c_price (?C ! 0) = 59475" "c_price (?C ! 3) = 70525"
    using arg_cong [OF c, of "\<lambda>xs. xs ! 0"] arg_cong [OF c, of "\<lambda>xs. xs ! 3"] \<open>length ?C = 6\<close>
    by simp_all
  then have q: "c_price (?C ! 0) < or_default (currentPrice \<lparr>currentPrice = JNum 65000\<rparr>) 65000"
      "or_default (currentPrice \<lparr>currentPrice = JNum 65000\<rparr>) 65000 < c_price (?C ! 3)"
    by simp_all
  from distance_sign [OF u p, of "''24h''"] m q
  have "negative (c_distance (?C ! 0)) \<and> \<not> negative (c_distance (?C ! 3)) \<and> \<not> negative (distance (?L ! 0))"
    by blast
  with u p c l show ?thesis by blast
qed

text \<open>
  Claim C5 as stated fails on a support level: with the reference price 65000 and every
  draw one half, the first retained support has the price 59800, below the reference
  price, and the distance \<open>8.00\<close>, without a minus sign.
\<close>

theorem support_distance_counterexample:
  "price (hd (supports (processLevelsData \<lparr>currentPrice = JNum 65000\<rparr> (\<lambda>_. 1 / 2)))) < 65000
   \<and> distance (hd (supports (processLevelsData \<lparr>currentPrice = JNum 65000\<rparr> (\<lambda>_. 1 / 2))))
        = \<lparr>negative = False, hundredths = 800\<rparr>"
  by code_simp

section \<open>A failed fetch keeps the snapshot\<close>

lemma failed_fetch_step:
  assumes "failed r"
  shows "fetchSupportResistanceLevels r now g s = s\<lparr>sr_isLive := False\<rparr>"
  using assms by (cases r rule: failed.cases) simp_all

lemma sr_fetches_length: "length (sr_fetches as s) = length as"
  by (induction as arbitrary: s) simp_all

lemma sr_fetches_failed:
  assumes "i < length as" "failed (fst (as ! i))"
  shows "sr_fetches as s ! i = ((s # sr_fetches as s) ! i)\<lparr>sr_isLive := False\<rparr>"
  using assms
proof (induction as arbitrary: s i)
  case Nil
  then show ?case by simp
next
  case (Cons a as)
  show ?case
  proof (cases i)
    case 0
    with Cons.prems show ?thesis
      by (cases a) (simp add: sr_handler_def failed_fetch_step)
  next
    case (Suc j)
    with Cons.prems Cons.IH [of j "sr_handler a s"] show ?thesis by simp
  qed
qed

text \<open>
  Claim C1. A failed fetch of the support and resistance module (a rejected request, or
  data that cannot be processed) sets \<open>isLive\<close> to false and leaves the levels, the
  reference price and the time of the last update as they were; so it is at every
  position of every sequence of fetches. The interval stays registered when a request
  settles, and its next firing starts a new request. For the sequence success at 65000,
  failure, success at 66000, from any state, \<open>isLive\<close> is true, false, true and the
  reference price is 65000, 65000, 66000.
\<close>

theorem failed_fetch_keeps_snapshot:
  "(failed r \<longrightarrow>
      \<not> sr_isLive (fetchSupportResistanceLevels r now g s)
      \<and> sr_levels (fetchSupportResistanceLevels r now g s) = sr_levels s
      \<and> sr_currentPrice (fetchSupportResistanceLevels r now g s) = sr_currentPrice s
      \<and> sr_lastUpdated (fetchSupportResistanceLevels r now g s) = sr_lastUpdated s)
   \<and> (\<forall>i < length as. failed (fst (as ! i)) \<longrightarrow>
        \<not> sr_isLive (sr_fetches as s ! i)
        \<and> sr_levels (sr_fetches as s ! i) = sr_levels ((s # sr_fetches as s) ! i)
        \<and> sr_currentPrice (sr_fetches as s ! i) = sr_currentPrice ((s # sr_fetches as s) ! i))
   \<and> timer (sr_step (Settle k a) p) = timer p
   \<and> (timer p \<longrightarrow> inflight (sr_step TimerFire (sr_step (Settle k a) p))
                      = inflight (sr_step (Settle k a) p) @ [issued p])
   \<and> map sr_isLive (sr_fetches
        [(Resolved (Some \<lparr>currentPrice = JNum 65000\<rparr>), t1, g1), (Rejected, t2, g2),
         (Resolved (Some \<lparr>currentPrice = JNum 66000\<rparr>), t3, g3)] s) = [True, False, True]
   \<and> map sr_currentPrice (sr_fetches
        [(Resolved (Some \<lparr>currentPrice = JNum 65000\<rparr>), t1, g1), (Rejected, t2, g2),
         (Resolved (Some \<lparr>currentPrice = JNum 66000\<rparr>), t3, g3)] s) = [Some 65000, Some 65000, Some 66000]"
proof -
  have 1: "failed r \<longrightarrow>
      \<not> sr_isLive (fetchSupportResistanceLevels r now g s)
      \<and> sr_levels (fetchSupportResistanceLevels r now g s) = sr_levels s
      \<and> sr_currentPrice (fetchSupportResistanceLevels r now g s) = sr_currentPrice s
      \<and> sr_lastUpdated (fetchSupportResistanceLevels r now g s) = sr_lastUpdated s"
    by (simp add: failed_fetch_step)
  have 2: "\<forall>i < length as. failed (fst (as ! i)) \<longrightarrow>
        \<not> sr_isLive (sr_fetches as s ! i)
        \<and> sr_levels (sr_fetches as s ! i) = sr_levels ((s # sr_fetches as s) ! i)
        \<and> sr_currentPrice (sr_fetches as s ! i) = sr_currentPrice ((s # sr_fetches as s) ! i)"
    by (simp add: sr_fetches_failed)
  have 3: "timer (sr_step (Settle k a) p) = timer p"
    by (simp add: sr_step_def)
  have 4: "timer p \<longrightarrow> inflight (sr_step TimerFire (sr_step (Settle k a) p))
                      = inflight (sr_step (Settle k a) p) @ [issued p]"
    by (simp add: sr_step_def startFetch_def)
  have 5: "map sr_isLive (sr_fetches
        [(Resolved (Some \<lparr>currentPrice = JNum 65000\<rparr>), t1, g1), (Rejected, t2, g2),
         (Resolved (Some \<lparr>currentPrice = JNum 66000\<rparr>), t3, g3)] s) = [True, False, True]"
    by (simp add: sr_handler_def)
  have 6: "map sr_currentPrice (sr_fetches
        [(Resolved (Some \<lparr>currentPrice = JNum 65000\<rparr>), t1, g1), (Rejected, t2, g2),
         (Resolved (Some \<lparr>currentPrice = JNum 66000\<rparr>), t3, g3)] s) = [Some 65000, Some 65000, Some 66000]"
    by (simp add: sr_handler_def)
  from 1 2 3 4 5 6 show ?thesis by blast
qed

theorem failed_fetch_keeps_snapshot_witness:
  "failed (Rejected :: payload response)
   \<and> \<not> sr_isLive (fetchSupportResistanceLevels Rejected 7 (\<lambda>_. 1 / 2) sr_initial)
   \<and> sr_levels (fetchSupportResistanceLevels Rejected 7 (\<lambda>_. 1 / 2) sr_initial) = sr_levels sr_initial
   \<and> (1::nat) < length [(Resolved (Some \<lparr>currentPrice = JNum 65000\<rparr>), 1::nat, \<lambda>_::nat. 1 / 2 :: real),
                         (Rejected, 2, \<lambda>_. 1 / 2)]
   \<and> sr_currentPrice (sr_fetches [(Resolved (Some \<lparr>currentPrice = JNum 65000\<rparr>), 1, \<lambda>_. 1 / 2),
                                   (Rejected, 2, \<lambda>_. 1 / 2)] sr_initial ! 1) = Some 65000
   \<and> \<not> sr_isLive (sr_fetches [(Resolved (Some \<lparr>currentPrice = JNum 65000\<rparr>), 1, \<lambda>_. 1 / 2),
                                   (Rejected, 2, \<lambda>_. 1 / 2)] sr_initial ! 1)
   \<and> timer (sr_step EffectRun (unmounted sr_initial))
   \<and> inflight (sr_step TimerFire (sr_step (Settle 0 (Rejected, 2, \<lambda>_. 1 / 2))
         (sr_step EffectRun (unmounted sr_initial)))) = [1]"
proof -
  let ?as = "[(Resolved (Some \<lparr>currentPrice = JNum 65000\<rparr>), 1::nat, \<lambda>_::nat. 1 / 2 :: real),
              (Rejected, 2, \<lambda>_. 1 / 2)]"
  have f: "failed (Rejected :: payload response)" by simp
  have i: "(1::nat) < length ?as" "failed (fst (?as ! 1))" by simp_all
  have p: "sr_currentPrice ((sr_initial # sr_fetches ?as sr_initial) ! 1) = Some 65000"
    by (simp add: sr_handler_def)
  have t: "timer (sr_step EffectRun (unmounted sr_initial))"
    by (simp add: sr_step_def startFetch_def unmounted_def)
  have q: "inflight (sr_step (Settle 0 (Rejected, 2, \<lambda>_. 1 / 2)) (sr_step EffectRun (unmounted sr_initial))) = []"
          "issued (sr_step EffectRun (unmounted sr_initial)) = 1"
    by (simp_all add: sr_step_def startFetch_def unmounted_def)
  from failed_fetch_keeps_snapshot [where r = Rejected and now = 7 and g = "\<lambda>_. 1 / 2"
      and s = sr_initial and as = ?as and k = 0 and a = "(Rejected, 2, \<lambda>_. 1 / 2)"
      and p = "sr_step EffectRun (unmounted sr_initial)"] f i p t q
  show ?thesis by (simp del: sr_fetches.simps)
qed

section \<open>A payload without a usable price\<close>

lemma or_default_falsy: "falsy v \<Longrightarrow> or_default v d = d"
  by (cases v) simp_all

lemma or_default_truthy: "\<not> falsy (JNum x) \<Longrightarrow> or_default (JNum x) d = x"
  by simp

lemma processLevelsData_default:
  "falsy (currentPrice data) \<Longrightarrow> processLevelsData data g = processLevelsData \<lparr>currentPrice = JNum 65000\<rparr> g"
  by (simp add: processLevelsData_def candidateLevels_def or_default_falsy)

text \<open>
  Claim C4, as the code has it. When the price field of the payload is absent, \<open>null\<close> or
  zero, the fetch succeeds with the constant 65000 in its place: the reference price
  becomes 65000 whatever it was before, the levels are computed and the alerts checked
  against 65000, and \<open>isLive\<close> is true. Data that cannot be read at all ends in the
  \<open>catch\<close> block, which only sets \<open>isLive\<close> to false. No arrival unregisters the
  interval: while it is registered, its next firing starts a new request.
\<close>

theorem missing_price_defaults:
  "(falsy (currentPrice data) \<longrightarrow>
      sr_currentPrice (fetchSupportResistanceLevels (Resolved (Some data)) now g s) = Some 65000
      \<and> sr_isLive (fetchSupportResistanceLevels (Resolved (Some data)) now g s)
      \<and> sr_lastUpdated (fetchSupportResistanceLevels (Resolved (Some data)) now g s) = Some now
      \<and> sr_levels (fetchSupportResistanceLevels (Resolved (Some data)) now g s)
          = processLevelsData \<lparr>currentPrice = JNum 65000\<rparr> g)
   \<and> (falsy (data_price pdata) \<longrightarrow>
      pa_currentPrice (fetchCurrentPrice au (Resolved (Some pdata)) now ps) = Some 65000
      \<and> pa_isLive (fetchCurrentPrice au (Resolved (Some pdata)) now ps)
      \<and> alerts (fetchCurrentPrice au (Resolved (Some pdata)) now ps)
          = fst (checkAlerts au now 65000 (alerts ps)))
   \<and> fetchSupportResistanceLevels (Resolved None) now g s = s\<lparr>sr_isLive := False\<rparr>
   \<and> fetchCurrentPrice au (Resolved None) now ps = ps\<lparr>pa_isLive := False\<rparr>
   \<and> timer (sr_step (Settle k a) p) = timer p
   \<and> timer (pa_step au (Settle k b) q) = timer q
   \<and> (timer p \<longrightarrow> inflight (sr_step TimerFire (sr_step (Settle k a) p))
                      = inflight (sr_step (Settle k a) p) @ [issued p])
   \<and> (timer q \<longrightarrow> inflight (pa_step au TimerFire (pa_step au (Settle k b) q))
                      = inflight (pa_step au (Settle k b) q) @ [issued q])"
  by (simp add: or_default_falsy processLevelsData_default sr_step_def startFetch_def
        case_prod_beta Let_def)

theorem missing_price_defaults_witness:
  "falsy (currentPrice \<lparr>currentPrice = JUndefined\<rparr>)
   \<and> sr_currentPrice (fetchSupportResistanceLevels (Resolved (Some \<lparr>currentPrice = JUndefined\<rparr>)) 9
        (\<lambda>_. 1 / 2) (sr_initial\<lparr>sr_currentPrice := Some 66000\<rparr>)) = Some 65000
   \<and> falsy (data_price \<lparr>data_price = JNull\<rparr>)
   \<and> pa_currentPrice (fetchCurrentPrice (\<lambda>_. True) (Resolved (Some \<lparr>data_price = JNull\<rparr>)) 9
        (pa_initial\<lparr>pa_currentPrice := Some 66000\<rparr>)) = Some 65000
   \<and> timer (sr_step EffectRun (unmounted sr_initial))
   \<and> inflight (sr_step TimerFire (sr_step (Settle 0 (Resolved None, 2, \<lambda>_. 1 / 2))
         (sr_step EffectRun (unmounted sr_initial)))) = [1]
   \<and> timer (pa_step (\<lambda>_. True) EffectRun (unmounted pa_initial))
   \<and> inflight (pa_step (\<lambda>_. True) TimerFire (pa_step (\<lambda>_. True) (Settle 0 (Resolved None, 2))
         (pa_step (\<lambda>_. True) EffectRun (unmounted pa_initial)))) = [1]"
proof -
  have f: "falsy (currentPrice \<lparr>currentPrice = JUndefined\<rparr>)" "falsy (data_price \<lparr>data_price = JNull\<rparr>)"
    by simp_all
  have t: "timer (sr_step EffectRun (unmounted sr_initial))"
      "timer (pa_step (\<lambda>_. True) EffectRun (unmounted pa_initial))"
    by (simp_all add: sr_step_def startFetch_def unmounted_def)
  have q: "inflight (sr_step (Settle 0 (Resolved None, 2, \<lambda>_. 1 / 2)) (sr_step EffectRun (unmounted sr_initial))) = []"
          "issued (sr_step EffectRun (unmounted sr_initial)) = 1"
          "inflight (pa_step (\<lambda>_. True) (Settle 0 (Resolved None, 2)) (pa_step (\<lambda>_. True) EffectRun (unmounted pa_initial))) = []"
          "issued (pa_step (\<lambda>_. True) EffectRun (unmounted pa_initial)) = 1"
    by (simp_all add: sr_step_def startFetch_def unmounted_def)
  from missing_price_defaults [where data = "\<lparr>currentPrice = JUndefined\<rparr>" and now = 9
      and g = "\<lambda>_. 1 / 2" and s = "sr_initial\<lparr>sr_currentPrice := Some 66000\<rparr>"
      and pdata = "\<lparr>data_price = JNull\<rparr>" and au = "\<lambda>_. True"
      and ps = "pa_initial\<lparr>pa_currentPrice := Some 66000\<rparr>" and k = 0
      and a = "(Resolved None, 2, \<lambda>_. 1 / 2)" and p = "sr_step EffectRun (unmounted sr_initial)"
      and b = "(Resolved None, 2)" and q = "pa_step (\<lambda>_. True) EffectRun (unmounted pa_initial)"] f t q
  show ?thesis by simp
qed

text \<open>
  Claim C4 as stated fails on the fallback: after a fetch that set the reference price
  to 66000, a payload without \<open>currentPrice\<close> sets it to 65000, not to the previous
  66000.
\<close>

theorem missing_price_counterexample:
  "map sr_currentPrice (sr_fetches
      [(Resolved (Some \<lparr>currentPrice = JNum 66000\<rparr>), 1, \<lambda>_. 1 / 2),
       (Resolved (Some \<lparr>currentPrice = JUndefined\<rparr>), 2, \<lambda>_. 1 / 2)] sr_initial)
     = [Some 66000, Some 65000]"
  by (simp add: sr_handler_def)

section \<open>Manual alerts trigger once\<close>

lemma checkAlert_keeps:
  "a_price (fst (checkAlert au now p a)) = a_price a"
  "a_type (fst (checkAlert au now p a)) = a_type a"
  "a_sound (fst (checkAlert au now p a)) = a_sound a"
  by (simp_all add: checkAlert_def Let_def)

lemma reached_checkAlert: "reached (fst (checkAlert au now p a)) q = reached a q"
  by (simp add: reached_def checkAlert_keeps)

lemma checkAlert_done: "triggered a \<Longrightarrow> checkAlert au now p a = (a, None)"
  by (simp add: checkAlert_def)

lemma checkAlert_triggered:
  assumes "a_type a = ''above'' \<or> a_type a = ''below''"
  shows "triggered (fst (checkAlert au now p a)) = (triggered a \<or> reached a p)"
  using assms by (auto simp: checkAlert_def reached_def Let_def)

lemma checkAlert_sound:
  assumes "a_type a = ''above'' \<or> a_type a = ''below''" "au (a_sound a)"
  shows "snd (checkAlert au now p a) = (if \<not> triggered a \<and> reached a p then Some (a_sound a) else None)"
  using assms by (auto simp: checkAlert_def reached_def Let_def)

lemma checkAlerts_nth:
  assumes "i < length as"
  shows "fst (checkAlerts au now p as) ! i = fst (checkAlert au now p (as ! i))"
    and "snd (checkAlerts au now p as) ! i = snd (checkAlert au now p (as ! i))"
  using assms by (simp_all add: checkAlerts_def)

lemma checkAlerts_length: "length (fst (checkAlerts au now p as)) = length as"
  by (simp add: checkAlerts_def)

lemma priceUpdates_Cons:
  "fst (priceUpdates au (t # ts) as) = fst (priceUpdates au ts (fst (checkAlerts au (fst t) (snd t) as)))"
  "snd (priceUpdates au (t # ts) as) =
     snd (checkAlerts au (fst t) (snd t) as) # snd (priceUpdates au ts (fst (checkAlerts au (fst t) (snd t) as)))"
  by (cases t; simp add: case_prod_beta Let_def)+

lemma priceUpdates_lengths:
  "length (fst (priceUpdates au ts as)) = length as"
  "length (snd (priceUpdates au ts as)) = length ts"
  by (induction ts arbitrary: as)
     (simp_all add: priceUpdates_Cons checkAlerts_length del: priceUpdates.simps(2))

lemma priceUpdates_alert:
  assumes "i < length as" "a_type (as ! i) = ''above'' \<or> a_type (as ! i) = ''below''"
  shows "triggered (fst (priceUpdates au ts as) ! i)
           = (triggered (as ! i) \<or> (\<exists>j < length ts. reached (as ! i) (snd (ts ! j))))"
  using assms
proof (induction ts arbitrary: as)
  case Nil
  then show ?case by simp
next
  case (Cons t ts)
  let ?as1 = "fst (checkAlerts au (fst t) (snd t) as)"
  have n: "?as1 ! i = fst (checkAlert au (fst t) (snd t) (as ! i))"
    using Cons.prems(1) by (rule checkAlerts_nth)
  have "triggered (fst (priceUpdates au ts ?as1) ! i)
           = (triggered (?as1 ! i) \<or> (\<exists>j < length ts. reached (?as1 ! i) (snd (ts ! j))))"
    using Cons.prems by (intro Cons.IH) (simp_all add: checkAlerts_length n checkAlert_keeps)
  then show ?case
    using Cons.prems(2)
    by (simp add: priceUpdates_Cons n reached_checkAlert checkAlert_triggered Ex_less_Suc2
          del: priceUpdates.simps(2))
qed

lemma priceUpdates_sound:
  assumes "i < length as" "a_type (as ! i) = ''above'' \<or> a_type (as ! i) = ''below''"
    "au (a_sound (as ! i))" "j < length ts"
  shows "snd (priceUpdates au ts as) ! j ! i
           = (if \<not> triggered (as ! i) \<and> reached (as ! i) (snd (ts ! j))
                 \<and> (\<forall>j' < j. \<not> reached (as ! i) (snd (ts ! j')))
              then Some (a_sound (as ! i)) else None)"
  using assms
proof (induction ts arbitrary: as j)
  case Nil
  then show ?case by simp
next
  case (Cons t ts)
  let ?as1 = "fst (checkAlerts au (fst t) (snd t) as)"
  have n: "?as1 ! i = fst (checkAlert au (fst t) (snd t) (as ! i))"
    using Cons.prems(1) by (rule checkAlerts_nth)
  show ?case
  proof (cases j)
    case 0
    then show ?thesis
      using Cons.prems
      by (simp add: priceUpdates_Cons checkAlerts_nth checkAlert_sound del: priceUpdates.simps(2))
  next
    case (Suc m)
    have "snd (priceUpdates au ts ?as1) ! m ! i
           = (if \<not> triggered (?as1 ! i) \<and> reached (?as1 ! i) (snd (ts ! m))
                 \<and> (\<forall>j' < m. \<not> reached (?as1 ! i) (snd (ts ! j')))
              then Some (a_sound (?as1 ! i)) else None)"
      using Cons.prems Suc by (intro Cons.IH) (simp_all add: checkAlerts_length n checkAlert_keeps)
    then show ?thesis
      using Cons.prems(2) Suc
      by (simp add: priceUpdates_Cons n reached_checkAlert checkAlert_triggered checkAlert_keeps
            All_less_Suc2 del: priceUpdates.simps(2))
  qed
qed

lemma priceUpdates_plays:
  assumes "i < length as" "a_type (as ! i) = ''above'' \<or> a_type (as ! i) = ''below''"
    "au (a_sound (as ! i))"
  shows "playsFor i (snd (priceUpdates au ts as))
           = (if \<not> triggered (as ! i) \<and> (\<exists>j < length ts. reached (as ! i) (snd (ts ! j))) then 1 else 0)"
  using assms
proof (induction ts arbitrary: as)
  case Nil
  then show ?case by (simp add: playsFor_def)
next
  case (Cons t ts)
  let ?as1 = "fst (checkAlerts au (fst t) (snd t) as)"
  have n: "?as1 ! i = fst (checkAlert au (fst t) (snd t) (as ! i))"
    using Cons.prems(1) by (rule checkAlerts_nth)
  have "playsFor i (snd (priceUpdates au ts ?as1))
           = (if \<not> triggered (?as1 ! i) \<and> (\<exists>j < length ts. reached (?as1 ! i) (snd (ts ! j))) then 1 else 0)"
    using Cons.prems by (intro Cons.IH) (simp_all add: checkAlerts_length n checkAlert_keeps)
  moreover have "playsFor i (snd (priceUpdates au (t # ts) as))
      = (if snd (checkAlert au (fst t) (snd t) (as ! i)) \<noteq> None then 1 else 0)
        + playsFor i (snd (priceUpdates au ts ?as1))"
    using Cons.prems(1) by (simp add: playsFor_def priceUpdates_Cons checkAlerts_nth del: priceUpdates.simps(2))
  ultimately show ?case
    using Cons.prems(2,3)
    by (simp add: n reached_checkAlert checkAlert_triggered checkAlert_sound Ex_less_Suc2
          del: priceUpdates.simps(2))
qed

text \<open>
  Claim C2. Take an alert of the list that is not triggered, whose condition is
  \<open>'above'\<close> or \<open>'below'\<close> and whose audio element is mounted, and any sequence of
  price updates. After the first \<open>k\<close> updates the alert is triggered exactly when one
  of them reached its target (at or above it for \<open>'above'\<close>, at or below it for
  \<open>'below'\<close>): it becomes triggered at the first such update and stays so. Its sound
  is played at that update and at no other, once in all if the target is ever reached
  and never otherwise. A triggered alert is returned by the check as it is, without a
  sound. For the target 70000 with \<open>'above'\<close> and the prices 65000, 69000, 70500 the
  alert is triggered after the third update only, and the sound is played once, there.
\<close>

theorem alert_triggers_once:
  assumes "i < length as" "\<not> triggered (as ! i)"
    "a_type (as ! i) = ''above'' \<or> a_type (as ! i) = ''below''"
    "audioElements (a_sound (as ! i))"
  shows "(\<forall>k \<le> length ts. triggered (fst (priceUpdates audioElements (take k ts) as) ! i)
                             = (\<exists>j < k. reached (as ! i) (snd (ts ! j))))
    \<and> (\<forall>j < length ts. snd (priceUpdates audioElements ts as) ! j ! i
           = (if reached (as ! i) (snd (ts ! j)) \<and> (\<forall>j' < j. \<not> reached (as ! i) (snd (ts ! j')))
              then Some (a_sound (as ! i)) else None))
    \<and> playsFor i (snd (priceUpdates audioElements ts as))
           = (if \<exists>j < length ts. reached (as ! i) (snd (ts ! j)) then 1 else 0)
    \<and> (\<forall>a now p. triggered a \<longrightarrow> checkAlert audioElements now p a = (a, None))
    \<and> (reached (as ! i) p = (if a_type (as ! i) = ''above'' then a_price (as ! i) \<le> p
                               else p \<le> a_price (as ! i)))
    \<and> map (\<lambda>k. map triggered (fst (priceUpdates audioElements
             (take k [(t1, 65000), (t2, 69000), (t3, 70500)])
             [a\<lparr>a_price := 70000, a_type := ''above'', triggered := False\<rparr>]))) [1, 2, 3]
         = [[False], [False], [True]]
    \<and> (audioElements (a_sound a) \<longrightarrow>
         snd (priceUpdates audioElements [(t1, 65000), (t2, 69000), (t3, 70500)]
             [a\<lparr>a_price := 70000, a_type := ''above'', triggered := False\<rparr>])
           = [[None], [None], [Some (a_sound a)]])"
proof -
  have 1: "\<forall>k \<le> length ts. triggered (fst (priceUpdates audioElements (take k ts) as) ! i)
                             = (\<exists>j < k. reached (as ! i) (snd (ts ! j)))"
    using assms(1,2,3) by (auto simp: priceUpdates_alert)
  have 2: "\<forall>j < length ts. snd (priceUpdates audioElements ts as) ! j ! i
           = (if reached (as ! i) (snd (ts ! j)) \<and> (\<forall>j' < j. \<not> reached (as ! i) (snd (ts ! j')))
              then Some (a_sound (as ! i)) else None)"
    using assms by (simp add: priceUpdates_sound)
  have 3: "playsFor i (snd (priceUpdates audioElements ts as))
           = (if \<exists>j < length ts. reached (as ! i) (snd (ts ! j)) then 1 else 0)"
    using assms by (simp add: priceUpdates_plays)
  have 4: "\<forall>a now p. triggered a \<longrightarrow> checkAlert audioElements now p a = (a, None)"
    by (simp add: checkAlert_done)
  have 5: "reached (as ! i) p = (if a_type (as ! i) = ''above'' then a_price (as ! i) \<le> p
                               else p \<le> a_price (as ! i))"
    by (simp add: reached_def)
  have 6: "map (\<lambda>k. map triggered (fst (priceUpdates audioElements
             (take k [(t1, 65000), (t2, 69000), (t3, 70500)])
             [a\<lparr>a_price := 70000, a_type := ''above'', triggered := False\<rparr>]))) [1, 2, 3]
         = [[False], [False], [True]]"
    by (simp add: checkAlerts_def checkAlert_def eval_nat_numeral)
  have 7: "audioElements (a_sound a) \<longrightarrow>
         snd (priceUpdates audioElements [(t1, 65000), (t2, 69000), (t3, 70500)]
             [a\<lparr>a_price := 70000, a_type := ''above'', triggered := False\<rparr>])
           = [[None], [None], [Some (a_sound a)]]"
    by (simp add: checkAlerts_def checkAlert_def)
  from 1 2 3 4 5 6 7 show ?thesis by blast
qed

theorem alert_triggers_once_witness:
  "(0::nat) < length [armed] \<and> \<not> triggered ([armed] ! 0) \<and> a_type ([armed] ! 0) = ''above''
   \<and> (\<exists>j < length [(1::nat, 65000::real), (2, 69000), (3, 70500)].
         reached ([armed] ! 0) (snd ([(1::nat, 65000::real), (2, 69000), (3, 70500)] ! j)))
   \<and> map (\<lambda>k. triggered (fst (priceUpdates (\<lambda>_. True) (take k [(1, 65000), (2, 69000), (3, 70500)]) [armed]) ! 0))
        [0, 1, 2, 3] = [False, False, False, True]
   \<and> map (\<lambda>pl. pl ! 0) (snd (priceUpdates (\<lambda>_. True) [(1, 65000), (2, 69000), (3, 70500)] [armed]))
        = [None, None, Some alarm1]
   \<and> playsFor 0 (snd (priceUpdates (\<lambda>_. True) [(1, 65000), (2, 69000), (3, 70500)] [armed])) = 1"
proof -
  let ?ts = "[(1::nat, 65000::real), (2, 69000), (3, 70500)]"
  have h: "(0::nat) < length [armed]" "\<not> triggered ([armed] ! 0)"
    "a_type ([armed] ! 0) = ''above'' \<or> a_type ([armed] ! 0) = ''below''"
    "(\<lambda>_. True) (a_sound ([armed] ! 0))"
    by (simp_all add: armed_def)
  have t: "a_type ([armed] ! 0) = ''above''"
    by (simp add: armed_def)
  have e: "\<exists>j < length ?ts. reached ([armed] ! 0) (snd (?ts ! j))"
    by (intro exI [of _ 2]) (simp add: reached_def armed_def)
  have a: "map (\<lambda>k. triggered (fst (priceUpdates (\<lambda>_. True) (take k ?ts) [armed]) ! 0)) [0, 1, 2, 3]
        = [False, False, False, True]"
    by (simp add: checkAlerts_def checkAlert_def armed_def eval_nat_numeral)
  have b: "map (\<lambda>pl. pl ! 0) (snd (priceUpdates (\<lambda>_. True) ?ts [armed])) = [None, None, Some alarm1]"
    by (simp add: checkAlerts_def checkAlert_def armed_def)
  from alert_triggers_once [OF h, where ts = ?ts]
  have "playsFor 0 (snd (priceUpdates (\<lambda>_. True) ?ts [armed]))
          = (if \<exists>j < length ?ts. reached ([armed] ! 0) (snd (?ts ! j)) then 1 else 0)"
    by (rule conjunct1 [OF conjunct2 [OF conjunct2]])
  with e have c: "playsFor 0 (snd (priceUpdates (\<lambda>_. True) ?ts [armed])) = 1"
    by (simp only: if_True)
  from h(1,2) t e a b c show ?thesis by blast
qed

section \<open>Adding an alert\<close>

lemma handleAddAlert_accept:
  assumes "parseFloat (alertPrice s) = Num v" "0 < v"
  shows "handleAddAlert parseFloat now s =
     (None, s\<lparr>alerts := alerts s @ [\<lparr>a_id = now, a_price = v, a_type = alertType s,
                 a_sound = alertSound s, a_created = now, triggered = False, triggeredAt = None\<rparr>],
               alertPrice := []\<rparr>)"
  using assms by (simp add: handleAddAlert_def Let_def)

lemma handleAddAlert_reject:
  assumes "\<not> (\<exists>v. parseFloat (alertPrice s) = Num v \<and> 0 < v)"
  shows "handleAddAlert parseFloat now s = (Some ''Per favore inserisci un prezzo valido'', s)"
  using assms by (cases "parseFloat (alertPrice s)") (auto simp: handleAddAlert_def Let_def)

text \<open>
  Claim C10. \<open>handleAddAlert\<close> appends an alert exactly when \<open>parseFloat\<close> of the
  input is a number greater than zero. The appended alert has that number as its price,
  the condition and the sound selected in the form, and is not triggered; the alerts
  that were there are unchanged. When the input is rejected (\<open>NaN\<close>, zero or
  negative) the whole state is unchanged.
\<close>

theorem add_alert_validates:
  "(\<forall>v. parseFloat (alertPrice s) = Num v \<and> 0 < v \<longrightarrow>
       alerts (snd (handleAddAlert parseFloat now s))
         = alerts s @ [\<lparr>a_id = now, a_price = v, a_type = alertType s, a_sound = alertSound s,
                        a_created = now, triggered = False, triggeredAt = None\<rparr>])
   \<and> (\<not> (\<exists>v. parseFloat (alertPrice s) = Num v \<and> 0 < v) \<longrightarrow>
       snd (handleAddAlert parseFloat now s) = s)
   \<and> (length (alerts (snd (handleAddAlert parseFloat now s))) = Suc (length (alerts s)))
       = (\<exists>v. parseFloat (alertPrice s) = Num v \<and> 0 < v)
   \<and> take (length (alerts s)) (alerts (snd (handleAddAlert parseFloat now s))) = alerts s
   \<and> (\<forall>a \<in> set (drop (length (alerts s)) (alerts (snd (handleAddAlert parseFloat now s)))).
         \<not> triggered a)"
proof (cases "\<exists>v. parseFloat (alertPrice s) = Num v \<and> 0 < v")
  case True
  then obtain v where v: "parseFloat (alertPrice s) = Num v" "0 < v" by blast
  show ?thesis
    using True v handleAddAlert_accept [of parseFloat s v now] by simp
next
  case False
  then show ?thesis
    using handleAddAlert_reject [of parseFloat s now] by simp
qed

theorem add_alert_validates_witness:
  "parse_demo (alertPrice (pa_initial\<lparr>alertPrice := ''70000''\<rparr>)) = Num 70000 \<and> (0::real) < 70000
   \<and> alerts (snd (handleAddAlert parse_demo 42 (pa_initial\<lparr>alertPrice := ''70000''\<rparr>)))
       = [\<lparr>a_id = 42, a_price = 70000, a_type = ''above'', a_sound = alarm1, a_created = 42,
           triggered = False, triggeredAt = None\<rparr>]
   \<and> \<not> (\<exists>v. parse_demo (alertPrice (pa_initial\<lparr>alerts := [armed], alertPrice := ''-5''\<rparr>)) = Num v \<and> 0 < v)
   \<and> snd (handleAddAlert parse_demo 42 (pa_initial\<lparr>alerts := [armed], alertPrice := ''-5''\<rparr>))
       = pa_initial\<lparr>alerts := [armed], alertPrice := ''-5''\<rparr>
   \<and> \<not> (\<exists>v. parse_demo (alertPrice (pa_initial\<lparr>alertPrice := ''abc''\<rparr>)) = Num v \<and> 0 < v)
   \<and> alerts (snd (handleAddAlert parse_demo 42 (pa_initial\<lparr>alertPrice := ''abc''\<rparr>))) = []"
proof -
  have a: "parse_demo (alertPrice (pa_initial\<lparr>alertPrice := ''70000''\<rparr>)) = Num 70000 \<and> (0::real) < 70000"
    by (simp add: parse_demo_def)
  have b: "\<not> (\<exists>v. parse_demo (alertPrice (pa_initial\<lparr>alerts := [armed], alertPrice := ''-5''\<rparr>)) = Num v \<and> 0 < v)"
    by (simp add: parse_demo_def)
  have c: "\<not> (\<exists>v. parse_demo (alertPrice (pa_initial\<lparr>alertPrice := ''abc''\<rparr>)) = Num v \<and> 0 < v)"
    by (simp add: parse_demo_def)
  from add_alert_validates [where parseFloat = parse_demo and now = 42
      and s = "pa_initial\<lparr>alertPrice := ''70000''\<rparr>"] a
  have 1: "alerts (snd (handleAddAlert parse_demo 42 (pa_initial\<lparr>alertPrice := ''70000''\<rparr>)))
       = [\<lparr>a_id = 42, a_price = 70000, a_type = ''above'', a_sound = alarm1, a_created = 42,
           triggered = False, triggeredAt = None\<rparr>]"
    by (simp add: pa_initial_def)
  from add_alert_validates [where parseFloat = parse_demo and now = 42
      and s = "pa_initial\<lparr>alerts := [armed], alertPrice := ''-5''\<rparr>"] b
  have 2: "snd (handleAddAlert parse_demo 42 (pa_initial\<lparr>alerts := [armed], alertPrice := ''-5''\<rparr>))
       = pa_initial\<lparr>alerts := [armed], alertPrice := ''-5''\<rparr>"
    by blast
  from add_alert_validates [where parseFloat = parse_demo and now = 42
      and s = "pa_initial\<lparr>alertPrice := ''abc''\<rparr>"] c
  have 3: "alerts (snd (handleAddAlert parse_demo 42 (pa_initial\<lparr>alertPrice := ''abc''\<rparr>))) = []"
    by (simp add: pa_initial_def)
  from a b c 1 2 3 show ?thesis by blast
qed

section \<open>The polling effect: overlapping fetches and cleanup\<close>

lemma poll_run_append: "poll_run h (es @ fs) p = poll_run h fs (poll_run h es p)"
  by (induction es arbitrary: p) simp_all





text \<open>
  Claim C8, as the code has it. The cleanup unregisters the interval and nothing else;
  running it twice is running it once; after it, a firing of the interval starts no
  request. The code has no flag by which a request in flight at the cleanup would be
  discarded. In the support and resistance module the cleanup also runs at a change of
  the timeframe, with the component mounted: a request that was in flight then still
  runs its continuation when it settles, and the continuation updates the state as it
  always does. In the price alert module the cleanup runs only at the unmount, and a
  request that settles after it changes nothing, because the component is unmounted.
\<close>

theorem cleanup_idempotent:
  "sr_step Cleanup (sr_step Cleanup p) = sr_step Cleanup p
   \<and> \<not> timer (sr_step Cleanup p)
   \<and> component (sr_step Cleanup p) = component p
   \<and> inflight (sr_step Cleanup p) = inflight p
   \<and> sr_step TimerFire (sr_step Cleanup p) = sr_step Cleanup p
   \<and> (i \<in> set (inflight p) \<and> v \<noteq> sr_selectedTimeframe (component p) \<longrightarrow>
        component (sr_step (Settle i a) (handleTimeframeChange v p))
          = sr_handler a ((component p)\<lparr>sr_selectedTimeframe := v\<rparr>))
   \<and> pa_step au Cleanup (pa_step au Cleanup q) = pa_step au Cleanup q
   \<and> \<not> timer (pa_step au Cleanup q)
   \<and> component (pa_step au Cleanup q) = component q
   \<and> inflight (pa_step au Cleanup q) = inflight q
   \<and> pa_step au TimerFire (pa_step au Cleanup q) = pa_step au Cleanup q
   \<and> component (pa_step au (Settle j b) (pa_step au Cleanup q)) = component q"
  by (simp add: sr_step_def handleTimeframeChange_def startFetch_def)

theorem cleanup_idempotent_witness:
  "0 \<in> set (inflight (sr_step EffectRun (unmounted sr_initial)))
   \<and> ''1D'' \<noteq> sr_selectedTimeframe (component (sr_step EffectRun (unmounted sr_initial)))
   \<and> sr_currentPrice (component (handleTimeframeChange ''1D'' (sr_step EffectRun (unmounted sr_initial))))
        = None
   \<and> sr_currentPrice (component (sr_step
        (Settle 0 (Resolved (Some \<lparr>currentPrice = JNum 66000\<rparr>), 5, \<lambda>_. 1 / 2))
        (handleTimeframeChange ''1D'' (sr_step EffectRun (unmounted sr_initial))))) = Some 66000
   \<and> pa_currentPrice (component (pa_step (\<lambda>_. True)
        (Settle 0 (Resolved (Some \<lparr>data_price = JNum 70000\<rparr>), 5))
        (pa_step (\<lambda>_. True) Cleanup (pa_step (\<lambda>_. True) EffectRun (unmounted pa_initial))))) = None"
proof -
  let ?p = "sr_step EffectRun (unmounted sr_initial)"
  let ?q = "pa_step (\<lambda>_. True) EffectRun (unmounted pa_initial)"
  have m: "0 \<in> set (inflight ?p)" "''1D'' \<noteq> sr_selectedTimeframe (component ?p)"
    "component ?p = sr_initial"
    by (simp_all add: sr_step_def startFetch_def unmounted_def sr_initial_def)
  have n: "sr_currentPrice (component (handleTimeframeChange ''1D'' ?p)) = None"
    by (simp add: handleTimeframeChange_def sr_step_def startFetch_def unmounted_def sr_initial_def)
  have c: "component ?q = pa_initial"
    by simp
  note t = cleanup_idempotent [where p = ?p and i = 0 and v = "''1D''"
      and a = "(Resolved (Some \<lparr>currentPrice = JNum 66000\<rparr>), 5, \<lambda>_. 1 / 2)"
      and au = "\<lambda>_. True" and q = ?q and j = 0
      and b = "(Resolved (Some \<lparr>data_price = JNum 70000\<rparr>), 5)"]
  from t m have "component (sr_step
        (Settle 0 (Resolved (Some \<lparr>currentPrice = JNum 66000\<rparr>), 5, \<lambda>_. 1 / 2))
        (handleTimeframeChange ''1D'' ?p))
      = sr_handler (Resolved (Some \<lparr>currentPrice = JNum 66000\<rparr>), 5, \<lambda>_. 1 / 2)
          (sr_initial\<lparr>sr_selectedTimeframe := ''1D''\<rparr>)"
    by simp
  then have s: "sr_currentPrice (component (sr_step
        (Settle 0 (Resolved (Some \<lparr>currentPrice = JNum 66000\<rparr>), 5, \<lambda>_. 1 / 2))
        (handleTimeframeChange ''1D'' ?p))) = Some 66000"
    by (simp add: sr_handler_def)
  from t c have "component (pa_step (\<lambda>_. True)
        (Settle 0 (Resolved (Some \<lparr>data_price = JNum 70000\<rparr>), 5))
        (pa_step (\<lambda>_. True) Cleanup ?q)) = pa_initial"
    by (simp del: pa_step.simps)
  then have u: "pa_currentPrice (component (pa_step (\<lambda>_. True)
        (Settle 0 (Resolved (Some \<lparr>data_price = JNum 70000\<rparr>), 5))
        (pa_step (\<lambda>_. True) Cleanup ?q))) = None"
    by (simp add: pa_initial_def del: pa_step.simps)
  from m(1,2) n s u show ?thesis by blast
qed

text \<open>
  Claim C8 as stated fails on the request in flight, in the support and resistance
  module: the request started by the effect is in flight when the timeframe changes and
  the cleanup runs; it settles afterwards, and sets the reference price, which was not
  set before.
\<close>

theorem arrival_after_cleanup_counterexample:
  "sr_currentPrice (component (handleTimeframeChange ''1D'' (sr_step EffectRun (unmounted sr_initial))))
     = None
   \<and> sr_currentPrice (component (sr_step
        (Settle 0 (Resolved (Some \<lparr>currentPrice = JNum 66000\<rparr>), 5, \<lambda>_. 1 / 2))
        (handleTimeframeChange ''1D'' (sr_step EffectRun (unmounted sr_initial))))) = Some 66000
   \<and> sr_currentPrice (component (poll_run sr_handler
      [EffectRun, Cleanup, EffectRun, Settle 0 (Resolved (Some \<lparr>currentPrice = JNum 66000\<rparr>), 5, \<lambda>_. 1 / 2)]
      (unmounted sr_initial))) = Some 66000"
  by (simp add: handleTimeframeChange_def sr_step_def startFetch_def unmounted_def sr_handler_def
        sr_initial_def)

end
